theory Spec2Isabelle
  imports Main "HOL-Library.AList" "HOL-Library.Sublist"
begin

section \<open>The notebook optimize-llama-gptq-optimum.ipynb as a program\<close>

text \<open>
  The repository is one Jupyter notebook. Its code cells are straight-line Python
  around calls into third-party libraries (optimum, transformers, torch), the
  standard library (\<open>open\<close>, \<open>json\<close>, \<open>os.path\<close>, \<open>time\<close>) and two shell escapes.
  The embedding below has one definition per code cell, in the order of the
  notebook, over an explicit state: the notebook's global namespace, the object
  store, the file system, the rest of the outside world, and the trace of the
  operations performed so far. The libraries are a parameter \<open>L\<close> of every cell:
  nothing is assumed about what a library call returns or does to the outside
  world, only that it may return a value or raise.

  Import statements bind library names and are not modelled; the library is
  reached through \<open>L\<close>. Strings are character lists with one element per code
  point; the notebook's own literals are ASCII.
\<close>

subsection \<open>Python values, exceptions, library calls\<close>

datatype 'f pyval =
    PNone
  | PBool bool
  | PInt int
  | PFloat 'f
  | PStr string
  | PList "'f pyval list"
  | PDict "(string \<times> 'f pyval) list"
  | PObj nat
  | PLib string
  | PFile string string
  | PFunc string "'f pyval list"

text \<open>
  \<open>PObj k\<close> is a library object (a model, a tokenizer, a pipeline, the quantizer):
  a handle into the object store. \<open>PLib n\<close> is a named library constant such as
  \<open>torch.float16\<close>. \<open>PFile path mode\<close> is a file object returned by \<open>open\<close>.
  \<open>PFunc n defaults\<close> is a function defined by the notebook, with the values its
  default arguments had when the \<open>def\<close> ran. The type \<open>'f\<close> stands for Python's
  floats, whose arithmetic is part of \<open>L\<close>.
\<close>

datatype error =
    NameError string
  | KeyError string
  | TypeError
  | IndexError
  | AttributeError string
  | ZeroDivisionError
  | FileNotFoundError string
  | LibError string

datatype 'f libcall =
    Func string "'f pyval list" "(string \<times> 'f pyval) list"
  | Method "'f pyval" string "'f pyval list" "(string \<times> 'f pyval) list"
  | Invoke "'f pyval" "'f pyval list" "(string \<times> 'f pyval) list"

text \<open>
  A library call is a function called by its name, a method called on an object,
  or an object called as a function; each with its positional and its keyword
  arguments, as written in the source.
\<close>

datatype 'f event =
    Lib "'f libcall" "error + 'f pyval"
  | FileOpen string string "error option"
  | JsonLoad string "error + 'f pyval"
  | JsonDump "'f pyval" string "error option"
  | SetAttr "'f pyval" string "'f pyval"
  | Del string
  | Print string

record ('f, 'w) sys =
  objs :: "(nat \<times> (string \<times> 'f pyval) list) list"
  files :: "(string \<times> string) list"
  world :: 'w

record ('f, 'w) lib =
  call :: "'f libcall \<Rightarrow> ('f, 'w) sys \<Rightarrow> (error + 'f pyval) \<times> ('f, 'w) sys"
  json_load :: "string \<Rightarrow> error + 'f pyval"
  json_dump :: "'f pyval \<Rightarrow> int \<Rightarrow> string \<times> error option"
  float_literal :: "string \<Rightarrow> 'f"
  float_of_int :: "int \<Rightarrow> 'f"
  int_truediv :: "int \<Rightarrow> int \<Rightarrow> 'f"
  float_sub :: "'f \<Rightarrow> 'f \<Rightarrow> 'f"
  float_div :: "'f \<Rightarrow> 'f \<Rightarrow> 'f"
  float_mul :: "'f \<Rightarrow> 'f \<Rightarrow> 'f"
  float_round :: "'f \<Rightarrow> int \<Rightarrow> 'f"
  float_str :: "'f \<Rightarrow> string"
  float_format :: "string \<Rightarrow> 'f \<Rightarrow> string"

text \<open>
  \<open>call L c y\<close> runs the library call \<open>c\<close> in the outside world \<open>y\<close>: it returns
  a value or raises, and leaves a new outside world in both cases.
  \<open>json_load\<close> parses a text; \<open>json_dump v indent\<close> gives the text that
  \<open>json.dump\<close> writes for \<open>v\<close> and the exception that stopped it, if one did.
  The remaining fields are float arithmetic and formatting, with a non-zero
  divisor where they divide.
\<close>

record ('f, 'w) state =
  globals :: "(string \<times> 'f pyval) list"
  ext :: "('f, 'w) sys"
  trace :: "'f event list"

type_synonym ('a, 'f, 'w) nb = "('f, 'w) state \<Rightarrow> (error + 'a) \<times> ('f, 'w) state"

subsection \<open>Statements\<close>

definition ret :: "'a \<Rightarrow> ('a, 'f, 'w) nb" where
  "ret x = (\<lambda>s. (Inr x, s))"

definition raise :: "error \<Rightarrow> ('a, 'f, 'w) nb" where
  "raise e = (\<lambda>s. (Inl e, s))"

definition then_do :: "('a, 'f, 'w) nb \<Rightarrow> ('a \<Rightarrow> ('b, 'f, 'w) nb) \<Rightarrow> ('b, 'f, 'w) nb" where
  "then_do m f = (\<lambda>s. case m s of (Inl e, s') \<Rightarrow> (Inl e, s') | (Inr x, s') \<Rightarrow> f x s')"

definition lift :: "error + 'a \<Rightarrow> ('a, 'f, 'w) nb" where
  "lift r = (case r of Inl e \<Rightarrow> raise e | Inr x \<Rightarrow> ret x)"

definition expr :: "('a, 'f, 'w) nb \<Rightarrow> (unit, 'f, 'w) nb" where
  "expr m = then_do m (\<lambda>_. ret ())"

primrec block :: "(unit, 'f, 'w) nb list \<Rightarrow> (unit, 'f, 'w) nb" where
  "block [] = ret ()"
| "block (m # ms) = then_do m (\<lambda>_. block ms)"

primrec for_each :: "'a list \<Rightarrow> ('a \<Rightarrow> (unit, 'f, 'w) nb) \<Rightarrow> (unit, 'f, 'w) nb" where
  "for_each [] body = ret ()"
| "for_each (x # xs) body = then_do (body x) (\<lambda>_. for_each xs body)"

definition log :: "'f event \<Rightarrow> (unit, 'f, 'w) nb" where
  "log ev = (\<lambda>s. (Inr (), s\<lparr>trace := trace s @ [ev]\<rparr>))"

definition getvar :: "string \<Rightarrow> ('f pyval, 'f, 'w) nb" where
  "getvar n = (\<lambda>s. case map_of (globals s) n of
                      None \<Rightarrow> (Inl (NameError n), s)
                    | Some v \<Rightarrow> (Inr v, s))"

definition setvar :: "string \<Rightarrow> 'f pyval \<Rightarrow> (unit, 'f, 'w) nb" where
  "setvar n v = (\<lambda>s. (Inr (), s\<lparr>globals := AList.update n v (globals s)\<rparr>))"

definition assign :: "string \<Rightarrow> ('f pyval, 'f, 'w) nb \<Rightarrow> (unit, 'f, 'w) nb" where
  "assign n m = then_do m (setvar n)"

definition delvar :: "string \<Rightarrow> (unit, 'f, 'w) nb" where
  "delvar n = (\<lambda>s. case map_of (globals s) n of
                      None \<Rightarrow> (Inl (NameError n), s)
                    | Some v \<Rightarrow> (Inr (), s\<lparr>globals := AList.delete n (globals s),
                                              trace := trace s @ [Del n]\<rparr>))"

definition libcall :: "('f, 'w) lib \<Rightarrow> 'f libcall \<Rightarrow> ('f pyval, 'f, 'w) nb" where
  "libcall L c = (\<lambda>s. case call L c (ext s) of
                        (r, y) \<Rightarrow> (r, s\<lparr>ext := y, trace := trace s @ [Lib c r]\<rparr>))"

text \<open>
  \<open>then_do\<close> is sequencing: an exception of the first part ends the whole, with
  the state as the first part left it. No construct of the model catches an
  exception, because no cell of the notebook has a \<open>try\<close>. \<open>block\<close> runs
  statements in order; \<open>for_each\<close> is the \<open>for\<close> loop over a list.
  \<open>libcall\<close> runs a library call and appends it, with its outcome, to the trace.
\<close>

subsection \<open>Attributes of library objects\<close>

definition attrs_of :: "('f, 'w) sys \<Rightarrow> nat \<Rightarrow> (string \<times> 'f pyval) list" where
  "attrs_of y k = (case map_of (objs y) k of None \<Rightarrow> [] | Some a \<Rightarrow> a)"

definition getattr :: "'f pyval \<Rightarrow> string \<Rightarrow> ('f pyval, 'f, 'w) nb" where
  "getattr v n = (\<lambda>s. case v of
       PObj k \<Rightarrow> (case map_of (attrs_of (ext s) k) n of
                     None \<Rightarrow> (Inl (AttributeError n), s)
                   | Some x \<Rightarrow> (Inr x, s))
     | _ \<Rightarrow> (Inl (AttributeError n), s))"

definition setattr :: "'f pyval \<Rightarrow> string \<Rightarrow> 'f pyval \<Rightarrow> (unit, 'f, 'w) nb" where
  "setattr v n x = (\<lambda>s. case v of
       PObj k \<Rightarrow> (Inr (), s\<lparr>ext := (ext s)\<lparr>objs :=
                     AList.update k (AList.update n x (attrs_of (ext s) k)) (objs (ext s))\<rparr>,
                   trace := trace s @ [SetAttr v n x]\<rparr>)
     | _ \<Rightarrow> (Inl (AttributeError n), s))"

subsection \<open>Subscripts, lengths, slices, numbers\<close>

definition getitem :: "'f pyval \<Rightarrow> string \<Rightarrow> error + 'f pyval" where
  "getitem v k = (case v of
       PDict d \<Rightarrow> (case map_of d k of None \<Rightarrow> Inl (KeyError k) | Some x \<Rightarrow> Inr x)
     | _ \<Rightarrow> Inl TypeError)"

definition setitem :: "'f pyval \<Rightarrow> string \<Rightarrow> 'f pyval \<Rightarrow> error + 'f pyval" where
  "setitem v k x = (case v of
       PDict d \<Rightarrow> Inr (PDict (AList.update k x d))
     | _ \<Rightarrow> Inl TypeError)"

definition digit_char :: "nat \<Rightarrow> char" where
  "digit_char d = ''0123456789'' ! (d mod 10)"

function show_nat :: "nat \<Rightarrow> string" where
  "show_nat n = (if n < 10 then [digit_char n] else show_nat (n div 10) @ [digit_char (n mod 10)])"
  by pat_completeness auto
termination
  by (relation "measure (\<lambda>n. n)") auto

definition show_int :: "int \<Rightarrow> string" where
  "show_int i = (if i < 0 then ''-'' @ show_nat (nat (- i)) else show_nat (nat i))"

definition position :: "nat \<Rightarrow> int \<Rightarrow> nat option" where
  "position len i =
     (if 0 \<le> i \<and> i < int len then Some (nat i)
      else if i < 0 \<and> - int len \<le> i then Some (nat (int len + i))
      else None)"

definition getindex :: "'f pyval \<Rightarrow> int \<Rightarrow> error + 'f pyval" where
  "getindex v i = (case v of
       PList xs \<Rightarrow>
         (case position (length xs) i of None \<Rightarrow> Inl IndexError | Some j \<Rightarrow> Inr (xs ! j))
     | PStr cs \<Rightarrow>
         (case position (length cs) i of None \<Rightarrow> Inl IndexError | Some j \<Rightarrow> Inr (PStr [cs ! j]))
     | PDict d \<Rightarrow> Inl (KeyError (show_int i))
     | _ \<Rightarrow> Inl TypeError)"

definition py_len :: "'f pyval \<Rightarrow> error + nat" where
  "py_len v = (case v of
       PStr cs \<Rightarrow> Inr (length cs)
     | PList xs \<Rightarrow> Inr (length xs)
     | PDict d \<Rightarrow> Inr (length d)
     | _ \<Rightarrow> Inl TypeError)"

definition slice_from :: "'f pyval \<Rightarrow> nat \<Rightarrow> error + 'f pyval" where
  "slice_from v n = (case v of
       PStr cs \<Rightarrow> Inr (PStr (drop n cs))
     | PList xs \<Rightarrow> Inr (PList (drop n xs))
     | _ \<Rightarrow> Inl TypeError)"

definition number :: "'f pyval \<Rightarrow> 'f pyval option" where
  "number v = (case v of
       PBool b \<Rightarrow> Some (PInt (if b then 1 else 0))
     | PInt i \<Rightarrow> Some (PInt i)
     | PFloat x \<Rightarrow> Some (PFloat x)
     | _ \<Rightarrow> None)"

definition py_sub :: "('f, 'w) lib \<Rightarrow> 'f pyval \<Rightarrow> 'f pyval \<Rightarrow> error + 'f pyval" where
  "py_sub L a b = (case (number a, number b) of
       (Some (PInt i), Some (PInt j)) \<Rightarrow> Inr (PInt (i - j))
     | (Some (PInt i), Some (PFloat y)) \<Rightarrow> Inr (PFloat (float_sub L (float_of_int L i) y))
     | (Some (PFloat x), Some (PInt j)) \<Rightarrow> Inr (PFloat (float_sub L x (float_of_int L j)))
     | (Some (PFloat x), Some (PFloat y)) \<Rightarrow> Inr (PFloat (float_sub L x y))
     | _ \<Rightarrow> Inl TypeError)"

definition py_truediv :: "('f, 'w) lib \<Rightarrow> 'f pyval \<Rightarrow> int \<Rightarrow> error + 'f" where
  "py_truediv L a n = (case number a of
       Some (PInt i) \<Rightarrow> if n = 0 then Inl ZeroDivisionError else Inr (int_truediv L i n)
     | Some (PFloat x) \<Rightarrow>
         if n = 0 then Inl ZeroDivisionError else Inr (float_div L x (float_of_int L n))
     | _ \<Rightarrow> Inl TypeError)"

text \<open>
  \<open>getitem v k\<close> is \<open>v[k]\<close> for a string key and \<open>getindex v i\<close> is \<open>v[i]\<close> for an
  integer, where a negative index counts from the end; \<open>setitem v k x\<close> is the dictionary after \<open>v[k] = x\<close> (an existing key
  keeps its place, a new key goes last, as in a Python dict);
  \<open>slice_from v n\<close> is \<open>v[n:]\<close>. Values that the libraries return and the
  notebook subscripts (a pipeline's output, a tokenizer's encoding) are Python
  data here. \<open>py_sub\<close> is \<open>a - b\<close> and \<open>py_truediv\<close> is \<open>a / n\<close> for an integer
  \<open>n\<close>: a type error before a division by zero, as Python checks them.
\<close>

definition py_str :: "('f, 'w) lib \<Rightarrow> 'f pyval \<Rightarrow> string" where
  "py_str L v = (case v of
       PStr cs \<Rightarrow> cs
     | PInt i \<Rightarrow> show_int i
     | PBool b \<Rightarrow> (if b then ''True'' else ''False'')
     | PNone \<Rightarrow> ''None''
     | PFloat x \<Rightarrow> float_str L x
     | _ \<Rightarrow> ''<object>'')"

text \<open>
  \<open>py_str\<close> is \<open>str(v)\<close> for the values the notebook formats (strings, integers,
  floats); the text of a list, a dictionary or an object is not modelled and
  stands as \<open><object>\<close>.
\<close>

subsection \<open>Files and JSON\<close>

definition path_join :: "'f pyval \<Rightarrow> 'f pyval \<Rightarrow> error + 'f pyval" where
  "path_join a b = (case (a, b) of
       (PStr x, PStr y) \<Rightarrow>
         Inr (PStr (if y \<noteq> [] \<and> hd y = CHR ''/'' then y
                    else if x = [] \<or> last x = CHR ''/'' then x @ y
                    else x @ ''/'' @ y))
     | _ \<Rightarrow> Inl TypeError)"

definition open_file :: "'f pyval \<Rightarrow> string \<Rightarrow> ('f pyval, 'f, 'w) nb" where
  "open_file p mode = (\<lambda>s. case p of
       PStr path \<Rightarrow>
         if mode = ''w'' then
           (Inr (PFile path mode),
            s\<lparr>ext := (ext s)\<lparr>files := AList.update path [] (files (ext s))\<rparr>,
              trace := trace s @ [FileOpen path mode None]\<rparr>)
         else (case map_of (files (ext s)) path of
             None \<Rightarrow> (Inl (FileNotFoundError path),
                       s\<lparr>trace := trace s @ [FileOpen path mode (Some (FileNotFoundError path))]\<rparr>)
           | Some t \<Rightarrow> (Inr (PFile path mode), s\<lparr>trace := trace s @ [FileOpen path mode None]\<rparr>))
     | _ \<Rightarrow> (Inl TypeError, s))"

definition contents :: "('f, 'w) sys \<Rightarrow> string \<Rightarrow> string" where
  "contents y path = (case map_of (files y) path of None \<Rightarrow> [] | Some t \<Rightarrow> t)"

definition json_load_from :: "('f, 'w) lib \<Rightarrow> 'f pyval \<Rightarrow> ('f pyval, 'f, 'w) nb" where
  "json_load_from L f = (\<lambda>s. case f of
       PFile path mode \<Rightarrow>
         if mode = ''r'' then
           (let r = json_load L (contents (ext s) path)
            in (r, s\<lparr>trace := trace s @ [JsonLoad path r]\<rparr>))
         else (Inl (LibError ''UnsupportedOperation''),
               s\<lparr>trace := trace s @ [JsonLoad path (Inl (LibError ''UnsupportedOperation''))]\<rparr>)
     | _ \<Rightarrow> (Inl (AttributeError ''read''), s))"

definition json_dump_to :: "('f, 'w) lib \<Rightarrow> 'f pyval \<Rightarrow> 'f pyval \<Rightarrow> int \<Rightarrow> (unit, 'f, 'w) nb" where
  "json_dump_to L v f indent = (\<lambda>s. case f of
       PFile path mode \<Rightarrow>
         if mode = ''w'' then
           (case json_dump L v indent of (txt, eo) \<Rightarrow>
              ((case eo of None \<Rightarrow> Inr () | Some e \<Rightarrow> Inl e),
               s\<lparr>ext := (ext s)\<lparr>files :=
                     AList.update path (contents (ext s) path @ txt) (files (ext s))\<rparr>,
                 trace := trace s @ [JsonDump v path eo]\<rparr>))
         else (Inl (LibError ''UnsupportedOperation''),
               s\<lparr>trace := trace s @ [JsonDump v path (Some (LibError ''UnsupportedOperation''))]\<rparr>)
     | _ \<Rightarrow> (Inl (AttributeError ''write''), s))"

text \<open>
  The file system is a list of paths with their texts. \<open>open(p, "w")\<close> creates or
  empties the file; \<open>open(p, "r")\<close> raises when there is no such file.
  \<open>json.load(f)\<close> parses the file's text; \<open>json.dump(v, f, indent=n)\<close> appends
  to the file what the serialiser wrote, and raises what it raised. Leaving a
  \<open>with\<close> block closes the file and lets an exception of the body pass, so it is
  not a step of its own. Directories and permissions are not modelled.
  \<open>path_join\<close> is \<open>os.path.join\<close> on POSIX for two components.
\<close>

subsection \<open>Shell escapes\<close>

definition is_field_char :: "char \<Rightarrow> bool" where
  "is_field_char c = (c \<in> set (''abcdefghijklmnopqrstuvwxyz'' @
      ''ABCDEFGHIJKLMNOPQRSTUVWXYZ'' @ ''0123456789'' @ ''_.''))"

definition outside_quotes :: "string \<Rightarrow> bool" where
  "outside_quotes rest = even (length (filter (\<lambda>c. c = CHR 0x27) rest))"

datatype piece = Chr char | Field string

function parse_dollar :: "string \<Rightarrow> piece list" where
  "parse_dollar [] = []"
| "parse_dollar (c # cs) =
     (if c = CHR ''$'' then
        (let escaped = (cs \<noteq> [] \<and> hd cs = CHR ''$'');
             body = (if escaped then tl cs else cs);
             field = takeWhile is_field_char body;
             rest = dropWhile is_field_char body
         in if field = [] \<or> \<not> outside_quotes rest then Chr c # parse_dollar cs
            else if escaped then Chr CHR ''$'' # map Chr field @ parse_dollar rest
            else Field field # parse_dollar rest)
      else Chr c # parse_dollar cs)"
  by pat_completeness auto
termination
  by (relation "measure length")
     (auto simp: less_Suc_eq_le intro: le_trans [OF length_dropWhile_le] le_trans [OF length_dropWhile_le length_tl [THEN eq_refl, THEN le_trans]])

fun fill :: "(string \<Rightarrow> string option) \<Rightarrow> piece list \<Rightarrow> string option" where
  "fill ns [] = Some []"
| "fill ns (Chr c # ps) = map_option (\<lambda>t. c # t) (fill ns ps)"
| "fill ns (Field n # ps) =
     (case ns n of None \<Rightarrow> None | Some txt \<Rightarrow> map_option (\<lambda>t. txt @ t) (fill ns ps))"

definition var_expand :: "('f, 'w) lib \<Rightarrow> string \<Rightarrow> ('f, 'w) state \<Rightarrow> string" where
  "var_expand L cmd s =
     (case fill (\<lambda>n. map_option (py_str L) (map_of (globals s) n)) (parse_dollar cmd) of
        None \<Rightarrow> cmd
      | Some c \<Rightarrow> c)"

definition system :: "('f, 'w) lib \<Rightarrow> string \<Rightarrow> (unit, 'f, 'w) nb" where
  "system L cmd =
     (\<lambda>s. expr (libcall L (Func ''get_ipython().system'' [PStr (var_expand L cmd s)] [])) s)"

definition rstrip :: "string \<Rightarrow> string" where
  "rstrip cs = rev (dropWhile (\<lambda>c. c \<in> set [CHR '' '', CHR 0x09, CHR 0x0A, CHR 0x0D]) (rev cs))"

fun join_spaces :: "string list \<Rightarrow> string" where
  "join_spaces [] = []"
| "join_spaces [p] = p"
| "join_spaces (p # q # ps) = p @ '' '' @ join_spaces (q # ps)"

definition assemble_continued_line :: "string list \<Rightarrow> string" where
  "assemble_continued_line parts =
     join_spaces (map (\<lambda>p. butlast (rstrip p)) (butlast parts) @ [rstrip (last parts)])"

text \<open>
  A line \<open>!cmd\<close> is IPython's \<open>get_ipython().system(cmd)\<close>. Lines that end in a
  backslash are joined first: each part loses its trailing white space and its
  backslash, and the parts are joined by one space. When the command runs,
  \<open>$name\<close> outside single quotes is replaced by \<open>str\<close> of the variable \<open>name\<close>
  of the namespace, and \<open>$$name\<close> by \<open>$name\<close>; if a name cannot be evaluated
  the command is passed on as it was written. A field is a run of letters,
  digits, \<open>_\<close> and \<open>.\<close>; fields that are not plain variable names, and
  expressions in braces, do not occur in this notebook and are not modelled.
  The exit status of the command is not looked at: a failing command raises
  nothing in Python. The call is passed to \<open>L\<close> all the same, like every other
  call.
\<close>

section \<open>The code cells\<close>

subsection \<open>1. Setup development environment\<close>

definition pip_command :: string where
  "pip_command = ''pip install \"transformers==4.32.1\" \"optimum==1.12.0\" \"auto-gptq==0.4.2\" \"accelerate==0.22.0\" \"safetensors>=0.3.1\" --upgrade''"

definition cell_setup :: "('f, 'w) lib \<Rightarrow> (unit, 'f, 'w) nb" where
  "cell_setup L = system L pip_command"

subsection \<open>2. Prepare quantization dataset\<close>

definition cell_dataset :: "(unit, 'f, 'w) nb" where
  "cell_dataset = setvar ''dataset_id'' (PStr ''wikitext2'')"

subsection \<open>3. Load and Quantize Model\<close>

definition cell_quantizer :: "('f, 'w) lib \<Rightarrow> (unit, 'f, 'w) nb" where
  "cell_quantizer L = block [
     assign ''quantizer''
       (then_do (getvar ''dataset_id'') (\<lambda>dataset_id.
        libcall L (Func ''GPTQQuantizer'' []
          [(''bits'', PInt 4), (''dataset'', dataset_id), (''model_seqlen'', PInt 4096)]))),
     then_do (getvar ''quantizer'') (\<lambda>quantizer.
       setattr quantizer ''quant_method'' (PStr ''gptq''))]"

definition cell_load :: "('f, 'w) lib \<Rightarrow> (unit, 'f, 'w) nb" where
  "cell_load L = block [
     setvar ''model_id'' (PStr ''philschmid/llama-2-7b-instruction-generator''),
     assign ''tokenizer''
       (then_do (getvar ''model_id'') (\<lambda>model_id.
        libcall L (Func ''AutoTokenizer.from_pretrained'' [model_id]
          [(''use_fast'', PBool False)]))),
     assign ''model''
       (then_do (getvar ''model_id'') (\<lambda>model_id.
        libcall L (Func ''AutoModelForCausalLM.from_pretrained'' [model_id]
          [(''low_cpu_mem_usage'', PBool True), (''torch_dtype'', PLib ''torch.float16'')])))]"

definition cell_quantize :: "('f, 'w) lib \<Rightarrow> (unit, 'f, 'w) nb" where
  "cell_quantize L = block [
     assign ''quantized_model''
       (then_do (getvar ''quantizer'') (\<lambda>quantizer.
        then_do (getvar ''model'') (\<lambda>model.
        then_do (getvar ''tokenizer'') (\<lambda>tokenizer.
        libcall L (Method quantizer ''quantize_model'' [model, tokenizer] []))))),
     setvar ''save_folder'' (PStr ''quantized_llama''),
     expr (then_do (getvar ''quantized_model'') (\<lambda>quantized_model.
           then_do (getvar ''save_folder'') (\<lambda>save_folder.
           libcall L (Method quantized_model ''save_pretrained'' [save_folder]
             [(''safe_serialization'', PBool True)])))),
     assign ''tokenizer''
       (then_do (getvar ''model_id'') (\<lambda>model_id.
        then_do (libcall L (Func ''AutoTokenizer.from_pretrained'' [model_id] [])) (\<lambda>fresh.
        then_do (getvar ''save_folder'') (\<lambda>save_folder.
        libcall L (Method fresh ''save_pretrained'' [save_folder] []))))),
     then_do (getvar ''save_folder'') (\<lambda>save_folder.
     then_do (lift (path_join save_folder (PStr ''quantize_config.json''))) (\<lambda>path.
     then_do (open_file path ''w'') (\<lambda>f. block [
       setvar ''f'' f,
       then_do (getvar ''quantizer'') (\<lambda>quantizer.
         setattr quantizer ''disable_exllama'' (PBool False)),
       then_do (getvar ''quantizer'') (\<lambda>quantizer.
       then_do (libcall L (Method quantizer ''to_dict'' [] [])) (\<lambda>d.
       then_do (getvar ''f'') (\<lambda>f.
       json_dump_to L d f 2)))])))]"

definition cell_config :: "('f, 'w) lib \<Rightarrow> (unit, 'f, 'w) nb" where
  "cell_config L =
     then_do (getvar ''save_folder'') (\<lambda>save_folder.
     then_do (lift (path_join save_folder (PStr ''config.json''))) (\<lambda>path.
     then_do (open_file path ''r'') (\<lambda>f. block [
       setvar ''f'' f,
       assign ''config'' (then_do (getvar ''f'') (json_load_from L)),
       then_do (getvar ''config'') (\<lambda>config.
       then_do (lift (getitem config ''quantization_config'')) (\<lambda>inner.
       then_do (lift (setitem inner ''disable_exllama'' (PBool False))) (\<lambda>inner'.
       then_do (lift (setitem config ''quantization_config'' inner')) (\<lambda>config'.
       setvar ''config'' config')))),
       then_do (getvar ''save_folder'') (\<lambda>save_folder.
       then_do (lift (path_join save_folder (PStr ''config.json''))) (\<lambda>path.
       then_do (open_file path ''w'') (\<lambda>f. block [
         setvar ''f'' f,
         then_do (getvar ''config'') (\<lambda>config.
         then_do (getvar ''f'') (\<lambda>f.
         json_dump_to L config f 2))])))])))"

text \<open>
  In \<open>cell_config\<close> the assignment
  \<open>config["quantization_config"]["disable_exllama"] = False\<close> changes the inner
  dictionary in place. Values are trees here, so the changed inner dictionary is
  put back under its key, which keeps every key where it was.
\<close>

subsection \<open>4. Test performance and inference speed\<close>

definition prompt_text :: string where
  "prompt_text = ''### Instruction:\<newline>Use the Input below to create an instruction, which could have been used to generate the input using an LLM.\<newline>\<newline>### Input:\<newline>Dear [boss name],\<newline>\<newline>I'm writing to request next week, August 1st through August 4th,\<newline>off as paid time off.\<newline>\<newline>I have some personal matters to attend to that week that require\<newline>me to be out of the office. I wanted to give you as much advance\<newline>notice as possible so you can plan accordingly while I am away.\<newline>\<newline>Thank you, [Your name]\<newline>\<newline>### Response:\<newline>''"

definition generated_beyond :: "'f pyval \<Rightarrow> 'f pyval \<Rightarrow> error + 'f pyval" where
  "generated_beyond out prompt =
     (case getindex out 0 of
        Inl e \<Rightarrow> Inl e
      | Inr first \<Rightarrow>
          (case getitem first ''generated_text'' of
             Inl e \<Rightarrow> Inl e
           | Inr whole \<Rightarrow>
               (case py_len prompt of
                  Inl e \<Rightarrow> Inl e
                | Inr n \<Rightarrow> slice_from whole n)))"

definition generate_helper :: "('f, 'w) lib \<Rightarrow> 'f pyval \<Rightarrow> 'f pyval \<Rightarrow> ('f pyval, 'f, 'w) nb" where
  "generate_helper L pipeline prompt =
     then_do (for_each [0 ..< 5] (\<lambda>i.
       expr (libcall L (Invoke pipeline [PStr ''Warm up''] [])))) (\<lambda>_.
     then_do (libcall L (Func ''time.time'' [] [])) (\<lambda>start.
     then_do (libcall L (Invoke pipeline [prompt]
       [(''max_new_tokens'', PInt 100), (''do_sample'', PBool True),
        (''top_p'', PFloat (float_literal L ''0.9'')),
        (''temperature'', PFloat (float_literal L ''0.9''))])) (\<lambda>out.
     then_do (libcall L (Func ''time.time'' [] [])) (\<lambda>end'.
     then_do (lift (generated_beyond out prompt)) (\<lambda>generated_text.
     then_do (lift (py_sub L end' start)) (\<lambda>elapsed.
     then_do (getattr pipeline ''tokenizer'') (\<lambda>tokenizer.
     then_do (libcall L (Invoke tokenizer [generated_text] [])) (\<lambda>encoding.
     then_do (lift (getitem encoding ''input_ids'')) (\<lambda>input_ids.
     then_do (lift (py_len input_ids)) (\<lambda>n.
     then_do (lift (py_truediv L elapsed (int n))) (\<lambda>per_token.
     then_do (lift (generated_beyond out prompt)) (\<lambda>text.
     ret (PDict [
       (''text'', text),
       (''latency'',
        PStr (float_str L (float_round L
                (float_mul L per_token (float_of_int L 1000)) 2) @ ''ms/token''))])))))))))))))"

definition cell_helper :: "(unit, 'f, 'w) nb" where
  "cell_helper = block [
     setvar ''prompt'' (PStr prompt_text),
     then_do (getvar ''prompt'') (\<lambda>prompt.
       setvar ''generate_helper'' (PFunc ''generate_helper'' [prompt]))]"

definition call_helper :: "('f, 'w) lib \<Rightarrow> 'f pyval \<Rightarrow> 'f pyval \<Rightarrow> ('f pyval, 'f, 'w) nb" where
  "call_helper L g pipeline =
     (case g of
        PFunc name defaults \<Rightarrow>
          (case defaults of
             [prompt] \<Rightarrow> if name = ''generate_helper'' then generate_helper L pipeline prompt
                        else raise TypeError
           | _ \<Rightarrow> raise TypeError)
      | _ \<Rightarrow> raise TypeError)"

definition print :: "string \<Rightarrow> (unit, 'f, 'w) nb" where
  "print txt = log (Print txt)"

definition report :: "('f, 'w) lib \<Rightarrow> string \<Rightarrow> (unit, 'f, 'w) nb" where
  "report L res = block [
     then_do (getvar res) (\<lambda>r.
     then_do (lift (getitem r ''latency'')) (\<lambda>latency.
     print (''Latency: '' @ py_str L latency))),
     then_do (libcall L (Func ''torch.cuda.memory_allocated'' [] [])) (\<lambda>bytes.
     then_do (lift (py_truediv L bytes (1024 ^ 3))) (\<lambda>gb.
     print (''GPU memory: '' @ float_format L ''.2f'' gb @ '' GB''))),
     then_do (getvar res) (\<lambda>r.
     then_do (lift (getitem r ''text'')) (\<lambda>text.
     print (''Generated Instruction: '' @ py_str L text)))]"

definition cell_baseline_load :: "('f, 'w) lib \<Rightarrow> (unit, 'f, 'w) nb" where
  "cell_baseline_load L = block [
     setvar ''model_id'' (PStr ''philschmid/llama-2-7b-instruction-generator''),
     assign ''tokenizer''
       (then_do (getvar ''model_id'') (\<lambda>model_id.
        libcall L (Func ''AutoTokenizer.from_pretrained'' [model_id] []))),
     assign ''model''
       (then_do (getvar ''model_id'') (\<lambda>model_id.
        libcall L (Func ''AutoModelForCausalLM.from_pretrained'' [model_id]
          [(''device_map'', PStr ''auto''), (''torch_dtype'', PLib ''torch.float16'')]))),
     assign ''pipe''
       (then_do (getvar ''model'') (\<lambda>model.
        then_do (getvar ''tokenizer'') (\<lambda>tokenizer.
        libcall L (Func ''pipeline'' [PStr ''text-generation'']
          [(''model'', model), (''tokenizer'', tokenizer)]))))]"

definition cell_baseline_bench :: "('f, 'w) lib \<Rightarrow> (unit, 'f, 'w) nb" where
  "cell_baseline_bench L = block [
     assign ''vanilla_res''
       (then_do (getvar ''generate_helper'') (\<lambda>g.
        then_do (getvar ''pipe'') (\<lambda>pipe.
        call_helper L g pipe))),
     report L ''vanilla_res'']"

definition cell_cleanup :: "('f, 'w) lib \<Rightarrow> (unit, 'f, 'w) nb" where
  "cell_cleanup L = block [
     delvar ''pipe'',
     delvar ''model'',
     delvar ''tokenizer'',
     expr (libcall L (Func ''torch.cuda.empty_cache'' [] []))]"

definition cell_quantized_load :: "('f, 'w) lib \<Rightarrow> (unit, 'f, 'w) nb" where
  "cell_quantized_load L = block [
     setvar ''model_id'' (PStr ''quantized_llama''),
     assign ''q_tokenizer''
       (then_do (getvar ''model_id'') (\<lambda>model_id.
        libcall L (Func ''AutoTokenizer.from_pretrained'' [model_id] []))),
     assign ''q_model''
       (then_do (getvar ''model_id'') (\<lambda>model_id.
        libcall L (Func ''AutoModelForCausalLM.from_pretrained'' [model_id]
          [(''device_map'', PStr ''auto''), (''torch_dtype'', PLib ''torch.float16'')]))),
     assign ''qtq_pipe''
       (then_do (getvar ''q_model'') (\<lambda>q_model.
        then_do (getvar ''q_tokenizer'') (\<lambda>q_tokenizer.
        libcall L (Func ''pipeline'' [PStr ''text-generation'']
          [(''model'', q_model), (''tokenizer'', q_tokenizer)]))))]"

definition cell_quantized_bench :: "('f, 'w) lib \<Rightarrow> (unit, 'f, 'w) nb" where
  "cell_quantized_bench L = block [
     assign ''gpq_res''
       (then_do (getvar ''generate_helper'') (\<lambda>g.
        then_do (getvar ''qtq_pipe'') (\<lambda>qtq_pipe.
        call_helper L g qtq_pipe))),
     report L ''gpq_res'']"

text \<open>
  \<open>def generate_helper(pipeline, prompt=prompt)\<close> takes the value of the global
  \<open>prompt\<close> as its default when the \<open>def\<close> runs; both calls of the notebook pass
  the pipeline only. \<open>report\<close> is the three \<open>print\<close> lines that follow each of the
  two calls, which differ in the name of the result only.
\<close>

subsection \<open>5. Run Inference with Text Generation Inference\<close>

definition docker_lines :: "string list" where
  "docker_lines = [
     ''docker run --gpus all -ti -p 8080:80 '' @ [CHR 0x5C, CHR 0x0A],
     ''  -e MODEL_ID=$model '' @ [CHR 0x5C, CHR 0x0A],
     ''  -e QUANTIZE=$quantize '' @ [CHR 0x5C, CHR 0x0A],
     ''  -e NUM_SHARD=$num_shard '' @ [CHR 0x5C, CHR 0x0A],
     ''  -e MAX_INPUT_LENGTH=$max_input_length '' @ [CHR 0x5C, CHR 0x0A],
     ''  -e MAX_TOTAL_TOKENS=$max_total_tokens '' @ [CHR 0x5C, CHR 0x0A],
     ''  -v $model:$model '' @ [CHR 0x5C, CHR 0x0A],
     ''  ghcr.io/huggingface/text-generation-inference:1.0.3'']"

definition cell_tgi :: "('f, 'w) lib \<Rightarrow> (unit, 'f, 'w) nb" where
  "cell_tgi L = block [
     setvar ''model'' (PStr ''/home/ubuntu/test-gptq''),
     setvar ''num_shard'' (PInt 1),
     setvar ''quantize'' (PStr ''gptq''),
     setvar ''max_input_length'' (PInt 1562),
     setvar ''max_total_tokens'' (PInt 4096),
     system L (assemble_continued_line docker_lines)]"

subsection \<open>The notebook\<close>

definition notebook :: "('f, 'w) lib \<Rightarrow> (unit, 'f, 'w) nb list" where
  "notebook L = [
     cell_setup L,
     cell_dataset,
     cell_quantizer L,
     cell_load L,
     cell_quantize L,
     cell_config L,
     cell_helper,
     cell_baseline_load L,
     cell_baseline_bench L,
     cell_cleanup L,
     cell_quantized_load L,
     cell_quantized_bench L,
     cell_tgi L]"

definition run_all :: "('f, 'w) lib \<Rightarrow> (unit, 'f, 'w) nb" where
  "run_all L = block (notebook L)"

definition fresh :: "'w \<Rightarrow> ('f, 'w) state" where
  "fresh w = \<lparr>globals = [], ext = \<lparr>objs = [], files = [], world = w\<rparr>, trace = []\<rparr>"

text \<open>
  \<open>run_all\<close> runs the code cells from top to bottom in a fresh kernel and stops
  at the first cell that raises. The last code cell of the notebook holds a
  \<open>curl\<close> command line without the shell escape; it is a request to the server
  that the cell before it started, not a Python statement, and it is not part
  of \<open>run_all\<close>.
\<close>

section \<open>Reading a trace\<close>

definition func_args :: "string \<Rightarrow> 'f event \<Rightarrow> ('f pyval list \<times> (string \<times> 'f pyval) list) option" where
  "func_args n ev = (case ev of
       Lib c r \<Rightarrow> (case c of Func m a k \<Rightarrow> if m = n then Some (a, k) else None | _ \<Rightarrow> None)
     | _ \<Rightarrow> None)"

definition func_calls :: "string \<Rightarrow> 'f event list \<Rightarrow> ('f pyval list \<times> (string \<times> 'f pyval) list) list" where
  "func_calls n tr = List.map_filter (func_args n) tr"

definition command_of :: "'f pyval list \<times> (string \<times> 'f pyval) list \<Rightarrow> string" where
  "command_of c = (case fst c of [PStr cmd] \<Rightarrow> cmd | _ \<Rightarrow> [])"

definition shell_commands :: "'f event list \<Rightarrow> string list" where
  "shell_commands tr = map command_of (func_calls ''get_ipython().system'' tr)"

text \<open>
  \<open>func_calls n tr\<close> lists the arguments of the calls of the library function
  \<open>n\<close> in the trace \<open>tr\<close>, in order; \<open>shell_commands tr\<close> lists the command
  lines that the shell escapes ran.
\<close>

primrec split_words :: "string \<Rightarrow> string \<Rightarrow> string list" where
  "split_words cur [] = (if cur = [] then [] else [cur])"
| "split_words cur (c # cs) =
     (if c = CHR '' '' then (if cur = [] then split_words [] cs else cur # split_words [] cs)
      else split_words (cur @ [c]) cs)"

definition words :: "string \<Rightarrow> string list" where
  "words cmd = split_words [] cmd"

fun env_args :: "string list \<Rightarrow> string list" where
  "env_args (a # b # rest) = (if a = ''-e'' then b # env_args rest else env_args (b # rest))"
| "env_args [a] = []"
| "env_args [] = []"

definition docker_command :: string where
  "docker_command = ''docker run --gpus all -ti -p 8080:80    -e MODEL_ID=/home/ubuntu/test-gptq    -e QUANTIZE=gptq    -e NUM_SHARD=1    -e MAX_INPUT_LENGTH=1562    -e MAX_TOTAL_TOKENS=4096    -v /home/ubuntu/test-gptq:/home/ubuntu/test-gptq    ghcr.io/huggingface/text-generation-inference:1.0.3''"

text \<open>
  \<open>words\<close> splits a command line at its spaces, and \<open>env_args\<close> collects the
  arguments that follow a \<open>-e\<close>. \<open>docker_command\<close> is the command line of the
  last cell with its variables filled in; that the cell runs exactly this
  command is proved below.
\<close>

section \<open>A small library to run the notebook on\<close>

text \<open>
  \<open>toy\<close> is a library small enough to run the whole notebook on by evaluation.
  Its floats are integers that count thousandths; the world is a clock that
  each generation call advances. A constructor or \<open>from_pretrained\<close> returns a
  new object whose attributes are the keyword arguments; \<open>to_dict\<close> returns the
  attributes of the object; \<open>save_pretrained\<close> writes a \<open>config.json\<close> into the
  folder; a pipeline returns its input followed by the text \<open>reply\<close>, and a
  tokenizer one token per character. \<open>failing n L\<close> is \<open>L\<close> with the function
  \<open>n\<close> raising. They serve as the concrete inputs of the theorems below, which
  are about every library.
\<close>

definition toy_config :: "int pyval" where
  "toy_config = PDict [
     (''model_type'', PStr ''llama''),
     (''quantization_config'',
        PDict [(''bits'', PInt 4), (''disable_exllama'', PBool True), (''quant_method'', PStr ''gptq'')]),
     (''vocab_size'', PInt 32000)]"

definition new_key :: "(nat \<times> 'a) list \<Rightarrow> nat" where
  "new_key store = Suc (foldr max (map fst store) 0)"

definition toy_call :: "string \<Rightarrow> int libcall \<Rightarrow> (int, nat) sys \<Rightarrow> (error + int pyval) \<times> (int, nat) sys" where
  "toy_call reply c y = (case c of
       Func n args kw \<Rightarrow>
         if n = ''time.time'' then (Inr (PFloat (int (world y))), y)
         else if n = ''torch.cuda.memory_allocated'' then (Inr (PInt 4112431349), y)
         else if n = ''torch.cuda.empty_cache'' \<or> n = ''get_ipython().system'' then (Inr PNone, y)
         else (Inr (PObj (new_key (objs y))), y\<lparr>objs := objs y @ [(new_key (objs y), kw)]\<rparr>)
     | Method ob n args kw \<Rightarrow>
         if n = ''to_dict'' then
           (case ob of PObj k \<Rightarrow> (Inr (PDict (attrs_of y k)), y) | _ \<Rightarrow> (Inl (LibError n), y))
         else if n = ''quantize_model'' then
           (case args of m # _ \<Rightarrow> (Inr m, y) | [] \<Rightarrow> (Inl (LibError n), y))
         else if n = ''save_pretrained'' then
           (case args of
              [PStr folder] \<Rightarrow>
                (Inr PNone, y\<lparr>files := AList.update (folder @ ''/config.json'') ''{config}'' (files y)\<rparr>)
            | _ \<Rightarrow> (Inl (LibError n), y))
         else (Inl (LibError n), y)
     | Invoke ob args kw \<Rightarrow>
         (case (ob, args) of
            (PObj k, [PStr txt]) \<Rightarrow>
              if map_of (attrs_of y k) ''tokenizer'' = None
              then (Inr (PDict [(''input_ids'', PList (map (\<lambda>c. PInt (of_char c)) txt))]), y)
              else (Inr (PList [PDict [(''generated_text'', PStr (txt @ reply))]]),
                    y\<lparr>world := world y + 504\<rparr>)
          | _ \<Rightarrow> (Inl (LibError ''call''), y)))"

definition toy_lib :: "string \<Rightarrow> (int, nat) lib" where
  "toy_lib reply = \<lparr>
     call = toy_call reply,
     json_load = (\<lambda>txt. if txt = ''{config}'' then Inr toy_config
                         else Inl (LibError ''JSONDecodeError'')),
     json_dump = (\<lambda>v indent. (''{json}'', None)),
     float_literal = (\<lambda>txt. if txt = ''0.9'' then 900 else 0),
     float_of_int = (\<lambda>i. 1000 * i),
     int_truediv = (\<lambda>i n. (1000 * i) div n),
     float_sub = (\<lambda>x y. x - y),
     float_div = (\<lambda>x y. (1000 * x) div y),
     float_mul = (\<lambda>x y. (x * y) div 1000),
     float_round = (\<lambda>x n. x),
     float_str = show_int,
     float_format = (\<lambda>spec. show_int)\<rparr>"

definition toy :: "(int, nat) lib" where
  "toy = toy_lib ''Write a letter''"


section \<open>Definitions used in the proofs\<close>

text \<open>
  \<open>timed_kwargs\<close> names the keyword arguments of the one timed call of
  \<open>generate_helper\<close>. \<open>helper_prefix\<close> is \<open>generate_helper\<close> up to the point where
  it has the tokenizer in hand, and \<open>helper_finish\<close> is what it computes from
  the tokenizer's answer; \<open>generate_helper\<close> is the first, then the call of the
  tokenizer, then the second (lemma \<open>helper_split\<close>). \<open>emits m k\<close> says that
  \<open>m\<close> adds exactly \<open>k\<close> events to the trace when it returns and at most \<open>k\<close>
  when it raises.
\<close>

definition timed_kwargs :: "('f, 'w) lib \<Rightarrow> (string \<times> 'f pyval) list" where
  "timed_kwargs L = [(''max_new_tokens'', PInt 100), (''do_sample'', PBool True),
        (''top_p'', PFloat (float_literal L ''0.9'')),
        (''temperature'', PFloat (float_literal L ''0.9''))]"




definition pipeline_state :: "(int, nat) state" where
  "pipeline_state = \<lparr>globals = [],
     ext = \<lparr>objs = [(0, []), (1, [(''model'', PObj 2), (''tokenizer'', PObj 0)])],
            files = [], world = 0\<rparr>,
     trace = []\<rparr>"

text \<open>
  \<open>pipeline_state\<close> is a state of the toy library in which object 1 is a
  pipeline whose tokenizer is object 0.
\<close>

definition config_state :: "(int, nat) state" where
  "config_state = \<lparr>globals = [(''save_folder'', PStr ''quantized_llama'')],
     ext = \<lparr>objs = [], files = [(''quantized_llama/config.json'', ''{config}'')], world = 0\<rparr>,
     trace = []\<rparr>"

text \<open>
  \<open>config_state\<close> is a state in which the save folder is set and holds the
  \<open>config.json\<close> that the toy library's \<open>save_pretrained\<close> writes.
\<close>

section \<open>Operations, failures and replay of a trace\<close>

text \<open>
  The trace of a run is read in three ways. \<open>op_of\<close> keeps of an event the
  operation only: the name of the function or method called, \<open>Called\<close> for an
  object called as a function, the mode of an \<open>open\<close>, the attribute set, the
  variable deleted. \<open>failure\<close> is the exception an event ended in, if it did.
  \<open>after L ev y\<close> lists the outside worlds that the event \<open>ev\<close> can leave when
  it happens in the world \<open>y\<close>: a library call leaves the world that \<open>call L\<close>
  leaves there, and only if the outcome recorded in the event is the one that
  \<open>call L\<close> gives there; setting an attribute, opening a file for writing and
  \<open>json.dump\<close> (with the indentation 2 that both dumps of the notebook use)
  change the object store and the files as the statements do; the other
  events leave the world as it is. \<open>replays L evs y y'\<close> says that the events
  \<open>evs\<close>, happening one after the other from the world \<open>y\<close>, end in the world
  \<open>y'\<close>: every library call of the trace is a call that \<open>L\<close> really answered
  that way, in the world the events before it left.
\<close>

datatype operation =
    Call string
  | Called
  | Opened string
  | Loaded
  | Dumped
  | Attr string
  | Deleted string
  | Printed

fun call_op :: "'f libcall \<Rightarrow> operation" where
  "call_op (Func n a k) = Call n"
| "call_op (Method ob n a k) = Call n"
| "call_op (Invoke ob a k) = Called"

fun op_of :: "'f event \<Rightarrow> operation" where
  "op_of (Lib c r) = call_op c"
| "op_of (FileOpen path mode eo) = Opened mode"
| "op_of (JsonLoad path r) = Loaded"
| "op_of (JsonDump v path eo) = Dumped"
| "op_of (SetAttr v n x) = Attr n"
| "op_of (Del n) = Deleted n"
| "op_of (Print t) = Printed"

fun failure :: "'f event \<Rightarrow> error option" where
  "failure (Lib c r) = (case r of Inl e \<Rightarrow> Some e | Inr v \<Rightarrow> None)"
| "failure (FileOpen path mode eo) = eo"
| "failure (JsonLoad path r) = (case r of Inl e \<Rightarrow> Some e | Inr v \<Rightarrow> None)"
| "failure (JsonDump v path eo) = eo"
| "failure (SetAttr v n x) = None"
| "failure (Del n) = None"
| "failure (Print t) = None"

fun after :: "('f, 'w) lib \<Rightarrow> 'f event \<Rightarrow> ('f, 'w) sys \<Rightarrow> ('f, 'w) sys list" where
  "after L (Lib c r) y = (if fst (call L c y) = r then [snd (call L c y)] else [])"
| "after L (FileOpen path mode eo) y =
     (if mode = ''w'' then (if eo = None then [y\<lparr>files := AList.update path [] (files y)\<rparr>] else [])
      else [y])"
| "after L (JsonLoad path r) y = [y]"
| "after L (JsonDump v path eo) y =
     (if eo = snd (json_dump L v 2)
      then [y\<lparr>files := AList.update path (contents y path @ fst (json_dump L v 2)) (files y)\<rparr>]
      else []) @
     (if eo = Some (LibError ''UnsupportedOperation'') then [y] else [])"
| "after L (SetAttr v n x) y =
     (case v of
        PObj k \<Rightarrow> [y\<lparr>objs := AList.update k (AList.update n x (attrs_of y k)) (objs y)\<rparr>]
      | _ \<Rightarrow> [])"
| "after L (Del n) y = [y]"
| "after L (Print t) y = [y]"

primrec replays :: "('f, 'w) lib \<Rightarrow> 'f event list \<Rightarrow> ('f, 'w) sys \<Rightarrow> ('f, 'w) sys \<Rightarrow> bool" where
  "replays L [] y y' = (y' = y)"
| "replays L (ev # evs) y y' = (\<exists>y1 \<in> set (after L ev y). replays L evs y1 y')"

text \<open>
  \<open>clean evs\<close>: no event of \<open>evs\<close> failed. \<open>ends_with e evs\<close>: no event but the
  last one failed, and if the last one failed it failed with \<open>e\<close>.
  \<open>conforms L m ops\<close>: whatever the state \<open>m\<close> starts in, the events it adds
  to the trace replay from the world it started in to the world it leaves;
  when \<open>m\<close> returns, their operations are exactly \<open>ops\<close> and none of them
  failed; when \<open>m\<close> raises \<open>e\<close>, their operations are the beginning of \<open>ops\<close>,
  and a failed event is the last one and failed with \<open>e\<close>.
\<close>

definition clean :: "'f event list \<Rightarrow> bool" where
  "clean evs = list_all (\<lambda>ev. failure ev = None) evs"

definition ends_with :: "error \<Rightarrow> 'f event list \<Rightarrow> bool" where
  "ends_with e evs = (clean (butlast evs) \<and>
     (evs = [] \<or> failure (last evs) = None \<or> failure (last evs) = Some e))"

definition conforms :: "('f, 'w) lib \<Rightarrow> ('a, 'f, 'w) nb \<Rightarrow> operation list \<Rightarrow> bool" where
  "conforms L m ops = (\<forall>s. \<exists>evs.
      trace (snd (m s)) = trace s @ evs \<and> replays L evs (ext s) (ext (snd (m s))) \<and>
      (case fst (m s) of
         Inr x \<Rightarrow> map op_of evs = ops \<and> clean evs
       | Inl e \<Rightarrow> prefix (map op_of evs) ops \<and> ends_with e evs))"

text \<open>
  \<open>helper_ops\<close> are the operations of one call of \<open>generate_helper\<close>,
  \<open>report_ops\<close> those of the three \<open>print\<close> lines after it, and \<open>program_ops\<close>
  those of a complete run of the notebook, cell by cell.
\<close>

definition helper_ops :: "operation list" where
  "helper_ops = [Called, Called, Called, Called, Called, Call ''time.time'', Called,
     Call ''time.time'', Called]"

definition report_ops :: "operation list" where
  "report_ops = [Printed, Call ''torch.cuda.memory_allocated'', Printed, Printed]"

definition program_ops :: "operation list" where
  "program_ops =
     [Call ''get_ipython().system'',
      Call ''GPTQQuantizer'', Attr ''quant_method'',
      Call ''AutoTokenizer.from_pretrained'', Call ''AutoModelForCausalLM.from_pretrained'',
      Call ''quantize_model'', Call ''save_pretrained'', Call ''AutoTokenizer.from_pretrained'',
      Call ''save_pretrained'', Opened ''w'', Attr ''disable_exllama'', Call ''to_dict'', Dumped,
      Opened ''r'', Loaded, Opened ''w'', Dumped,
      Call ''AutoTokenizer.from_pretrained'', Call ''AutoModelForCausalLM.from_pretrained'',
      Call ''pipeline'',
      Called, Called, Called, Called, Called, Call ''time.time'', Called, Call ''time.time'', Called,
      Printed, Call ''torch.cuda.memory_allocated'', Printed, Printed,
      Deleted ''pipe'', Deleted ''model'', Deleted ''tokenizer'', Call ''torch.cuda.empty_cache'',
      Call ''AutoTokenizer.from_pretrained'', Call ''AutoModelForCausalLM.from_pretrained'',
      Call ''pipeline'',
      Called, Called, Called, Called, Called, Call ''time.time'', Called, Call ''time.time'', Called,
      Printed, Call ''torch.cuda.memory_allocated'', Printed, Printed,
      Call ''get_ipython().system'']"

text \<open>
  \<open>quantize_events\<close> are the events of the cell that quantizes and saves, when
  it returns, and \<open>reload_events\<close> those of the cell that loads the quantized
  model, with the values that the calls returned as parameters.
\<close>

definition quantize_events ::
  "nat \<Rightarrow> 'f pyval \<Rightarrow> 'f pyval \<Rightarrow> 'f pyval \<Rightarrow> 'f pyval \<Rightarrow> 'f pyval \<Rightarrow> 'f pyval \<Rightarrow> 'f pyval \<Rightarrow>
   'f pyval \<Rightarrow> 'f event list" where
  "quantize_events k mdl tkz qm u1 mid tk u2 d =
       [Lib (Method (PObj k) ''quantize_model'' [mdl, tkz] []) (Inr qm),
        Lib (Method qm ''save_pretrained'' [PStr ''quantized_llama'']
           [(''safe_serialization'', PBool True)]) (Inr u1),
        Lib (Func ''AutoTokenizer.from_pretrained'' [mid] []) (Inr tk),
        Lib (Method tk ''save_pretrained'' [PStr ''quantized_llama''] []) (Inr u2),
        FileOpen ''quantized_llama/quantize_config.json'' ''w'' None,
        SetAttr (PObj k) ''disable_exllama'' (PBool False),
        Lib (Method (PObj k) ''to_dict'' [] []) (Inr d),
        JsonDump d ''quantized_llama/quantize_config.json'' None]"

definition reload_events :: "'f pyval \<Rightarrow> 'f pyval \<Rightarrow> 'f pyval \<Rightarrow> 'f event list" where
  "reload_events tok m p =
       [Lib (Func ''AutoTokenizer.from_pretrained'' [PStr ''quantized_llama''] []) (Inr tok),
        Lib (Func ''AutoModelForCausalLM.from_pretrained'' [PStr ''quantized_llama'']
           [(''device_map'', PStr ''auto''), (''torch_dtype'', PLib ''torch.float16'')]) (Inr m),
        Lib (Func ''pipeline'' [PStr ''text-generation''] [(''model'', m), (''tokenizer'', tok)])
           (Inr p)]"

section \<open>Running statements\<close>

named_theorems run

lemma ret_apply [run]: "ret x s = (Inr x, s)"
  by (simp add: ret_def)

lemma raise_apply [run]: "raise e s = (Inl e, s)"
  by (simp add: raise_def)

lemma then_do_apply [run]:
  "then_do m f s = (case m s of (Inl e, s') \<Rightarrow> (Inl e, s') | (Inr x, s') \<Rightarrow> f x s')"
  by (simp add: then_do_def)

lemma lift_apply [run]: "lift r s = (case r of Inl e \<Rightarrow> (Inl e, s) | Inr x \<Rightarrow> (Inr x, s))"
  by (simp add: lift_def ret_def raise_def split: sum.splits)

lemma expr_apply [run]:
  "expr m s = (case m s of (Inl e, s') \<Rightarrow> (Inl e, s') | (Inr x, s') \<Rightarrow> (Inr (), s'))"
  by (simp add: expr_def then_do_def ret_def)

lemma block_Nil_apply [run]: "block [] s = (Inr (), s)"
  by (simp add: ret_def)

lemma block_Cons_apply [run]:
  "block (m # ms) s = (case m s of (Inl e, s') \<Rightarrow> (Inl e, s') | (Inr x, s') \<Rightarrow> block ms s')"
  by (simp add: then_do_def)

lemma for_each_Nil_apply [run]: "for_each [] body s = (Inr (), s)"
  by (simp add: ret_def)

lemma for_each_Cons_apply [run]:
  "for_each (x # xs) body s =
     (case body x s of (Inl e, s') \<Rightarrow> (Inl e, s') | (Inr u, s') \<Rightarrow> for_each xs body s')"
  by (simp add: then_do_def)

lemma log_apply [run]: "log ev s = (Inr (), s\<lparr>trace := trace s @ [ev]\<rparr>)"
  by (simp add: log_def)

lemma print_apply [run]: "print txt s = (Inr (), s\<lparr>trace := trace s @ [Print txt]\<rparr>)"
  by (simp add: print_def log_def)

lemma getvar_apply [run]:
  "getvar n s = (case map_of (globals s) n of
                   None \<Rightarrow> (Inl (NameError n), s)
                 | Some v \<Rightarrow> (Inr v, s))"
  by (simp add: getvar_def)

lemma setvar_apply [run]:
  "setvar n v s = (Inr (), s\<lparr>globals := AList.update n v (globals s)\<rparr>)"
  by (simp add: setvar_def)

lemma assign_apply [run]:
  "assign n m s = (case m s of (Inl e, s') \<Rightarrow> (Inl e, s') | (Inr v, s') \<Rightarrow> setvar n v s')"
  by (simp add: assign_def then_do_def)

lemma delvar_apply [run]:
  "delvar n s = (case map_of (globals s) n of
                   None \<Rightarrow> (Inl (NameError n), s)
                 | Some v \<Rightarrow> (Inr (), s\<lparr>globals := AList.delete n (globals s),
                                           trace := trace s @ [Del n]\<rparr>))"
  by (simp add: delvar_def)

lemma libcall_apply [run]:
  "libcall L c s = (case call L c (ext s) of
                      (r, y) \<Rightarrow> (r, s\<lparr>ext := y, trace := trace s @ [Lib c r]\<rparr>))"
  by (simp add: libcall_def)

lemma system_apply [run]:
  "system L cmd s =
     expr (libcall L (Func ''get_ipython().system'' [PStr (var_expand L cmd s)] [])) s"
  by (simp add: system_def)

lemmas python_defs =
  getattr_def setattr_def open_file_def json_load_from_def json_dump_to_def
  getitem_def setitem_def getindex_def position_def py_len_def slice_from_def number_def py_sub_def
  py_truediv_def py_str_def path_join_def contents_def attrs_of_def generated_beyond_def
  call_helper_def report_def

lemmas cell_defs =
  cell_setup_def cell_dataset_def cell_quantizer_def cell_load_def cell_quantize_def
  cell_config_def cell_helper_def cell_baseline_load_def cell_baseline_bench_def
  cell_cleanup_def cell_quantized_load_def cell_quantized_bench_def cell_tgi_def

lemmas toy_defs = toy_def toy_lib_def toy_call_def toy_config_def new_key_def

lemmas weak_congs =
  prod.case_cong_weak sum.case_cong_weak option.case_cong_weak if_weak_cong
  pyval.case_cong_weak list.case_cong_weak libcall.case_cong_weak

declare show_nat.simps [simp del]

subsection \<open>The two shell commands\<close>

lemma fill_text: "fill ns (map Chr xs @ ps) = map_option (\<lambda>t. xs @ t) (fill ns ps)"
  by (induction xs) (simp_all add: option.map_comp comp_def option.map_ident)

lemma pip_parsed: "parse_dollar pip_command = map Chr pip_command @ []"
  by code_simp

lemma pip_expand: "var_expand L pip_command s = pip_command"
  unfolding var_expand_def pip_parsed fill_text by simp

lemma docker_parsed:
  "parse_dollar (assemble_continued_line docker_lines) =
   map Chr ''docker run --gpus all -ti -p 8080:80    -e MODEL_ID='' @ Field ''model'' #
   map Chr ''    -e QUANTIZE='' @ Field ''quantize'' #
   map Chr ''    -e NUM_SHARD='' @ Field ''num_shard'' #
   map Chr ''    -e MAX_INPUT_LENGTH='' @ Field ''max_input_length'' #
   map Chr ''    -e MAX_TOTAL_TOKENS='' @ Field ''max_total_tokens'' #
   map Chr ''    -v '' @ Field ''model'' # map Chr '':'' @ Field ''model'' #
   map Chr ''    ghcr.io/huggingface/text-generation-inference:1.0.3'' @ []"
  by code_simp

lemma show_int_values:
  "show_int 1 = ''1''" "show_int 1562 = ''1562''" "show_int 4096 = ''4096''"
  by (simp_all add: show_int_def show_nat.simps digit_char_def)

lemma docker_expand:
  assumes "map_of (globals s) ''model'' = Some (PStr ''/home/ubuntu/test-gptq'')"
    and "map_of (globals s) ''quantize'' = Some (PStr ''gptq'')"
    and "map_of (globals s) ''num_shard'' = Some (PInt 1)"
    and "map_of (globals s) ''max_input_length'' = Some (PInt 1562)"
    and "map_of (globals s) ''max_total_tokens'' = Some (PInt 4096)"
  shows "var_expand L (assemble_continued_line docker_lines) s = docker_command"
  unfolding var_expand_def docker_parsed fill_text fill.simps
  using assms by (simp add: py_str_def show_int_values docker_command_def)

subsection \<open>Calls in a trace\<close>

lemma func_calls_append: "func_calls n (xs @ ys) = func_calls n xs @ func_calls n ys"
  by (simp add: func_calls_def map_filter_def)

lemma func_calls_simps:
  "func_calls n [] = []"
  "func_calls n (Lib (Func m a k) r # tr) =
     (if m = n then (a, k) # func_calls n tr else func_calls n tr)"
  "func_calls n (Lib (Method ob m a k) r # tr) = func_calls n tr"
  "func_calls n (Lib (Invoke ob a k) r # tr) = func_calls n tr"
  "func_calls n (FileOpen p mode eo # tr) = func_calls n tr"
  "func_calls n (JsonLoad p res # tr) = func_calls n tr"
  "func_calls n (JsonDump v p eo # tr) = func_calls n tr"
  "func_calls n (SetAttr ob x v # tr) = func_calls n tr"
  "func_calls n (Del x # tr) = func_calls n tr"
  "func_calls n (Print txt # tr) = func_calls n tr"
  by (simp_all add: func_calls_def map_filter_def func_args_def)

lemma shell_commands_append:
  "shell_commands (xs @ ys) = shell_commands xs @ shell_commands ys"
  by (simp add: shell_commands_def func_calls_append)

section \<open>Rules for runs that return\<close>

named_theorems ok

lemma ret_ok [ok]: "ret x s = (Inr v, s') \<longleftrightarrow> v = x \<and> s' = s"
  by (auto simp: ret_def)
lemma raise_ok [ok]: "raise e s = (Inr v, s') \<longleftrightarrow> False"
  by (auto simp: raise_def)
lemma then_do_ok [ok]: "then_do m f s = (Inr v, s') \<longleftrightarrow> (\<exists>x s1. m s = (Inr x, s1) \<and> f x s1 = (Inr v, s'))"
  by (auto simp: then_do_def split: prod.splits sum.splits)
lemma lift_ok [ok]: "lift r s = (Inr v, s') \<longleftrightarrow> r = Inr v \<and> s' = s"
  by (auto simp: lift_def ret_def raise_def split: sum.splits)
lemma expr_ok [ok]: "expr m s = (Inr u, s') \<longleftrightarrow> (\<exists>x. m s = (Inr x, s'))"
  by (auto simp: expr_def then_do_ok ret_ok)
lemma block_Nil_ok [ok]: "block [] s = (Inr u, s') \<longleftrightarrow> s' = s"
  by (auto simp: ret_ok)
lemma block_Cons_ok [ok]: "block (m # ms) s = (Inr u, s') \<longleftrightarrow> (\<exists>s1. m s = (Inr (), s1) \<and> block ms s1 = (Inr u, s'))"
  by (auto simp: then_do_ok)
lemma for_each_Nil_ok [ok]: "for_each [] body s = (Inr u, s') \<longleftrightarrow> s' = s"
  by (auto simp: ret_ok)
lemma for_each_Cons_ok [ok]: "for_each (x # xs) body s = (Inr u, s') \<longleftrightarrow> (\<exists>s1. body x s = (Inr (), s1) \<and> for_each xs body s1 = (Inr u, s'))"
  by (auto simp: then_do_ok)
lemma print_ok [ok]: "print txt s = (Inr u, s') \<longleftrightarrow>
    globals s' = globals s \<and> ext s' = ext s \<and> trace s' = trace s @ [Print txt]"
  by (cases s, cases s') (auto simp: print_def log_def)
lemma getvar_ok [ok]: "getvar n s = (Inr v, s') \<longleftrightarrow> map_of (globals s) n = Some v \<and> s' = s"
  by (auto simp: getvar_def split: option.splits)
lemma setvar_ok [ok]: "setvar n v s = (Inr u, s') \<longleftrightarrow>
    globals s' = AList.update n v (globals s) \<and> ext s' = ext s \<and> trace s' = trace s"
  by (cases s, cases s') (auto simp: setvar_def)
lemma assign_ok [ok]: "assign n m s = (Inr u, s') \<longleftrightarrow>
    (\<exists>v s1. m s = (Inr v, s1) \<and> globals s' = AList.update n v (globals s1) \<and> ext s' = ext s1 \<and> trace s' = trace s1)"
  by (auto simp: assign_def then_do_ok setvar_ok)
lemma delvar_ok [ok]: "delvar n s = (Inr u, s') \<longleftrightarrow>
    (\<exists>v. map_of (globals s) n = Some v) \<and> globals s' = AList.delete n (globals s) \<and> ext s' = ext s \<and>
    trace s' = trace s @ [Del n]"
  by (cases s, cases s') (auto simp: delvar_def split: option.splits)
lemma libcall_ok [ok]: "libcall L c s = (Inr v, s') \<longleftrightarrow>
    call L c (ext s) = (Inr v, ext s') \<and> globals s' = globals s \<and> trace s' = trace s @ [Lib c (Inr v)]"
  by (cases s, cases s') (auto simp: libcall_def split: prod.splits)
lemma getattr_ok [ok]: "getattr ob n s = (Inr v, s') \<longleftrightarrow> (\<exists>k. ob = PObj k \<and> map_of (attrs_of (ext s) k) n = Some v) \<and> s' = s"
  by (auto simp: getattr_def split: pyval.splits option.splits)
lemma setattr_ok [ok]:
  "setattr ob n x s = (Inr u, s') \<longleftrightarrow>
     (\<exists>k. ob = PObj k \<and> globals s' = globals s \<and>
        ext s' = (ext s)\<lparr>objs := AList.update k (AList.update n x (attrs_of (ext s) k)) (objs (ext s))\<rparr> \<and>
        trace s' = trace s @ [SetAttr ob n x])"
  by (cases s, cases s') (auto simp: setattr_def split: pyval.splits)
lemma open_write_ok [ok]:
  "open_file p ''w'' s = (Inr f, s') \<longleftrightarrow>
     (\<exists>path. p = PStr path \<and> f = PFile path ''w'' \<and> globals s' = globals s \<and>
        ext s' = (ext s)\<lparr>files := AList.update path [] (files (ext s))\<rparr> \<and>
        trace s' = trace s @ [FileOpen path ''w'' None])"
  by (cases s, cases s') (auto simp: open_file_def split: pyval.splits)
lemma open_read_ok [ok]:
  "open_file p ''r'' s = (Inr f, s') \<longleftrightarrow>
     (\<exists>path t. p = PStr path \<and> f = PFile path ''r'' \<and> map_of (files (ext s)) path = Some t \<and>
        globals s' = globals s \<and> ext s' = ext s \<and> trace s' = trace s @ [FileOpen path ''r'' None])"
  by (cases s, cases s') (auto simp: open_file_def split: pyval.splits option.splits)
lemma json_load_from_ok [ok]:
  "json_load_from L f s = (Inr v, s') \<longleftrightarrow>
     (\<exists>path. f = PFile path ''r'' \<and> json_load L (contents (ext s) path) = Inr v \<and>
        globals s' = globals s \<and> ext s' = ext s \<and> trace s' = trace s @ [JsonLoad path (Inr v)])"
  by (cases s, cases s') (auto simp: json_load_from_def Let_def split: pyval.splits)
lemma json_dump_to_ok [ok]:
  "json_dump_to L v f indent s = (Inr u, s') \<longleftrightarrow>
     (\<exists>path txt. f = PFile path ''w'' \<and> json_dump L v indent = (txt, None) \<and> globals s' = globals s \<and>
        ext s' = (ext s)\<lparr>files := AList.update path (contents (ext s) path @ txt) (files (ext s))\<rparr> \<and>
        trace s' = trace s @ [JsonDump v path None])"
  by (cases s, cases s') (auto simp: json_dump_to_def split: pyval.splits prod.splits option.splits)
lemma system_ok [ok]:
  "system L cmd s = (Inr u, s') \<longleftrightarrow>
     (\<exists>x. call L (Func ''get_ipython().system'' [PStr (var_expand L cmd s)] []) (ext s) = (Inr x, ext s') \<and>
        globals s' = globals s \<and>
        trace s' = trace s @ [Lib (Func ''get_ipython().system'' [PStr (var_expand L cmd s)] []) (Inr x)])"
  by (auto simp: system_def ok)

section \<open>The two halves of generate_helper\<close>


















section \<open>Every cell conforms to its list of operations\<close>

lemma replays_append:
  "replays L (evs1 @ evs2) y y'' \<longleftrightarrow> (\<exists>y'. replays L evs1 y y' \<and> replays L evs2 y' y'')"
  by (induction evs1 arbitrary: y) auto

lemma clean_append [simp]: "clean (evs1 @ evs2) \<longleftrightarrow> clean evs1 \<and> clean evs2"
  by (simp add: clean_def)

lemma clean_Nil [simp]: "clean []"
  by (simp add: clean_def)

lemma clean_ends: "clean evs \<Longrightarrow> ends_with e evs"
  by (cases evs rule: rev_cases) (auto simp: ends_with_def clean_def)

lemma ends_append: "clean evs1 \<Longrightarrow> ends_with e evs2 \<Longrightarrow> ends_with e (evs1 @ evs2)"
proof (cases evs2 rule: rev_cases)
  case Nil
  assume "clean evs1"
  with Nil show ?thesis by (simp add: clean_ends)
next
  case (snoc evs ev)
  assume "clean evs1" "ends_with e evs2"
  with snoc show ?thesis
    by (simp add: ends_with_def butlast_append)
qed

lemma conformsI:
  assumes "\<And>s r s'. m s = (r, s') \<Longrightarrow>
     \<exists>evs. trace s' = trace s @ evs \<and> replays L evs (ext s) (ext s') \<and>
       (case r of Inr x \<Rightarrow> map op_of evs = ops \<and> clean evs
        | Inl e \<Rightarrow> prefix (map op_of evs) ops \<and> ends_with e evs)"
  shows "conforms L m ops"
  unfolding conforms_def
proof
  fix s
  obtain r s' where ms: "m s = (r, s')" by (cases "m s")
  from assms [OF ms] ms
  show "\<exists>evs. trace (snd (m s)) = trace s @ evs \<and> replays L evs (ext s) (ext (snd (m s))) \<and>
      (case fst (m s) of
         Inr x \<Rightarrow> map op_of evs = ops \<and> clean evs
       | Inl e \<Rightarrow> prefix (map op_of evs) ops \<and> ends_with e evs)"
    by simp
qed

lemma conformsD:
  assumes "conforms L m ops" and "m s = (r, s')"
  shows "\<exists>evs. trace s' = trace s @ evs \<and> replays L evs (ext s) (ext s') \<and>
       (case r of Inr x \<Rightarrow> map op_of evs = ops \<and> clean evs
        | Inl e \<Rightarrow> prefix (map op_of evs) ops \<and> ends_with e evs)"
  using assms(1) [unfolded conforms_def, rule_format, of s] assms(2) by simp

lemma conforms_quiet:
  assumes "\<And>s. trace (snd (m s)) = trace s \<and> ext (snd (m s)) = ext s"
  shows "conforms L m []"
  unfolding conforms_def
  by (auto simp: assms ends_with_def split: sum.splits)

lemma conforms_ret: "conforms L (ret x) []"
  by (rule conforms_quiet) (simp add: ret_def)

lemma conforms_raise: "conforms L (raise e) []"
  by (rule conforms_quiet) (simp add: raise_def)

lemma conforms_lift: "conforms L (lift r) []"
  by (rule conforms_quiet) (simp add: lift_def ret_def raise_def split: sum.splits)

lemma conforms_getvar: "conforms L (getvar n) []"
  by (rule conforms_quiet) (simp add: getvar_def split: option.splits)

lemma conforms_setvar: "conforms L (setvar n v) []"
  by (rule conforms_quiet) (simp add: setvar_def)

lemma conforms_getattr: "conforms L (getattr v n) []"
  by (rule conforms_quiet) (simp add: getattr_def split: pyval.splits option.splits)

lemma conforms_delvar: "conforms L (delvar n) [Deleted n]"
  by (rule conformsI) (auto simp: delvar_def ends_with_def clean_def split: option.splits)

lemma conforms_libcall: "conforms L (libcall L c) [call_op c]"
  by (rule conformsI) (auto simp: libcall_def ends_with_def clean_def split: prod.splits sum.splits)

lemma conforms_func: "conforms L (libcall L (Func n a k)) [Call n]"
  using conforms_libcall [of L "Func n a k"] by simp

lemma conforms_method: "conforms L (libcall L (Method ob n a k)) [Call n]"
  using conforms_libcall [of L "Method ob n a k"] by simp

lemma conforms_invoke: "conforms L (libcall L (Invoke ob a k)) [Called]"
  using conforms_libcall [of L "Invoke ob a k"] by simp

lemma conforms_setattr: "conforms L (setattr v n x) [Attr n]"
  by (rule conformsI) (auto simp: setattr_def ends_with_def clean_def split: pyval.splits)

lemma conforms_open_file: "conforms L (open_file p mode) [Opened mode]"
  by (rule conformsI) (auto simp: open_file_def ends_with_def clean_def split: pyval.splits option.splits if_splits)

lemma conforms_json_load_from: "conforms L (json_load_from L f) [Loaded]"
proof (rule conformsI)
  fix s r s'
  assume "json_load_from L f s = (r, s')"
  then show "\<exists>evs. trace s' = trace s @ evs \<and> replays L evs (ext s) (ext s') \<and>
       (case r of Inr x \<Rightarrow> map op_of evs = [Loaded] \<and> clean evs
        | Inl e \<Rightarrow> prefix (map op_of evs) [Loaded] \<and> ends_with e evs)"
    by (cases r)
       (auto simp: json_load_from_def ends_with_def clean_def Let_def split: pyval.splits if_splits)
qed

lemma conforms_json_dump_to: "conforms L (json_dump_to L v f 2) [Dumped]"
  by (rule conformsI)
     (auto simp: json_dump_to_def ends_with_def clean_def split: pyval.splits option.splits prod.splits if_splits)

lemma conforms_print: "conforms L (print t) [Printed]"
  by (rule conformsI) (auto simp: print_def log_def clean_def)

lemma conforms_then_do:
  assumes m: "conforms L m ops1" and f: "\<And>x. conforms L (f x) ops2"
  shows "conforms L (then_do m f) (ops1 @ ops2)"
proof (rule conformsI)
  fix s r s'
  assume run: "then_do m f s = (r, s')"
  obtain r1 s1 where ms: "m s = (r1, s1)" by (cases "m s")
  from conformsD [OF m ms] obtain evs1 where e1: "trace s1 = trace s @ evs1"
      "replays L evs1 (ext s) (ext s1)"
      "case r1 of Inr x \<Rightarrow> map op_of evs1 = ops1 \<and> clean evs1
        | Inl e \<Rightarrow> prefix (map op_of evs1) ops1 \<and> ends_with e evs1" by blast
  show "\<exists>evs. trace s' = trace s @ evs \<and> replays L evs (ext s) (ext s') \<and>
       (case r of Inr x \<Rightarrow> map op_of evs = ops1 @ ops2 \<and> clean evs
        | Inl e \<Rightarrow> prefix (map op_of evs) (ops1 @ ops2) \<and> ends_with e evs)"
  proof (cases r1)
    case (Inl e)
    with run ms have "r = Inl e" "s' = s1" by (simp_all add: then_do_def)
    with e1 Inl show ?thesis by (auto intro: prefix_prefix)
  next
    case (Inr x)
    with run ms have fx: "f x s1 = (r, s')" by (simp add: then_do_def)
    from conformsD [OF f fx] obtain evs2 where e2: "trace s' = trace s1 @ evs2"
      "replays L evs2 (ext s1) (ext s')"
      "case r of Inr x \<Rightarrow> map op_of evs2 = ops2 \<and> clean evs2
        | Inl e \<Rightarrow> prefix (map op_of evs2) ops2 \<and> ends_with e evs2" by blast
    from e1 e2 Inr have "trace s' = trace s @ (evs1 @ evs2)"
      "replays L (evs1 @ evs2) (ext s) (ext s')"
      "case r of Inr x \<Rightarrow> map op_of (evs1 @ evs2) = ops1 @ ops2 \<and> clean (evs1 @ evs2)
        | Inl e \<Rightarrow> prefix (map op_of (evs1 @ evs2)) (ops1 @ ops2) \<and> ends_with e (evs1 @ evs2)"
      by (auto simp: replays_append ends_append split: sum.splits)
    then show ?thesis by blast
  qed
qed

lemma conforms_expr: "conforms L m ops \<Longrightarrow> conforms L (expr m) ops"
  unfolding expr_def using conforms_then_do [of L m ops "\<lambda>_. ret ()" "[]"] by (simp add: conforms_ret)

lemma conforms_assign: "conforms L m ops \<Longrightarrow> conforms L (assign n m) ops"
  unfolding assign_def using conforms_then_do [of L m ops "setvar n" "[]"] by (simp add: conforms_setvar)

lemma conforms_system: "conforms L (system L cmd) [Call ''get_ipython().system'']"
proof (rule conformsI)
  fix s r s'
  assume "system L cmd s = (r, s')"
  then have "expr (libcall L (Func ''get_ipython().system'' [PStr (var_expand L cmd s)] [])) s = (r, s')"
    by (simp add: system_def)
  from conformsD [OF conforms_expr [OF conforms_libcall] this]
  show "\<exists>evs. trace s' = trace s @ evs \<and> replays L evs (ext s) (ext s') \<and>
       (case r of Inr x \<Rightarrow> map op_of evs = [Call ''get_ipython().system''] \<and> clean evs
        | Inl e \<Rightarrow> prefix (map op_of evs) [Call ''get_ipython().system''] \<and> ends_with e evs)"
    by (simp only: call_op.simps)
qed

lemma conforms_block_Nil: "conforms L (block []) []"
  by (simp add: conforms_ret)

lemma conforms_block_Cons:
  "conforms L m ops1 \<Longrightarrow> conforms L (block ms) ops2 \<Longrightarrow> conforms L (block (m # ms)) (ops1 @ ops2)"
  by (simp add: conforms_then_do)

lemma conforms_eq: "conforms L m ops' \<Longrightarrow> ops' = ops \<Longrightarrow> conforms L m ops"
  by simp

lemma conforms_raise_any: "conforms L (raise e) ops"
  unfolding conforms_def by (simp add: raise_def ends_with_def)

lemma conforms_for_each:
  assumes "\<And>x. conforms L (body x) ops"
  shows "conforms L (for_each xs body) (concat (replicate (length xs) ops))"
proof (induction xs)
  case Nil
  show ?case by (simp add: conforms_ret)
next
  case (Cons x xs)
  from conforms_then_do [OF assms [of x], of "\<lambda>_. for_each xs body", OF Cons]
  show ?case by simp
qed

lemmas conforms_rules =
  conforms_then_do conforms_expr conforms_assign conforms_block_Nil conforms_block_Cons
  conforms_for_each
  conforms_ret conforms_lift conforms_getvar conforms_setvar conforms_getattr conforms_delvar
  conforms_func conforms_method conforms_invoke conforms_setattr conforms_open_file conforms_json_load_from
  conforms_json_dump_to conforms_print conforms_system

lemma conforms_generate_helper: "conforms L (generate_helper L p prompt) helper_ops"
  by (rule conforms_eq, unfold generate_helper_def, (rule conforms_rules)+)
     (simp add: helper_ops_def eval_nat_numeral)

lemma conforms_call_helper: "conforms L (call_helper L g p) helper_ops"
  by (auto simp: call_helper_def conforms_raise_any conforms_generate_helper
      split: pyval.splits list.splits)

lemma conforms_report: "conforms L (report L res) report_ops"
  by (rule conforms_eq, unfold report_def, (rule conforms_rules)+) (simp add: report_ops_def)

lemmas conforms_cells = conforms_rules conforms_call_helper conforms_report

lemma conforms_cell_setup: "conforms L (cell_setup L) [Call ''get_ipython().system'']"
  unfolding cell_setup_def by (rule conforms_system)

lemma conforms_cell_dataset: "conforms L cell_dataset []"
  unfolding cell_dataset_def by (rule conforms_setvar)

lemma conforms_cell_quantizer:
  "conforms L (cell_quantizer L) [Call ''GPTQQuantizer'', Attr ''quant_method'']"
  by (rule conforms_eq, unfold cell_quantizer_def, (rule conforms_cells)+) simp

lemma conforms_cell_load:
  "conforms L (cell_load L)
     [Call ''AutoTokenizer.from_pretrained'', Call ''AutoModelForCausalLM.from_pretrained'']"
  by (rule conforms_eq, unfold cell_load_def, (rule conforms_cells)+) simp

lemma conforms_cell_quantize:
  "conforms L (cell_quantize L)
     [Call ''quantize_model'', Call ''save_pretrained'', Call ''AutoTokenizer.from_pretrained'',
      Call ''save_pretrained'', Opened ''w'', Attr ''disable_exllama'', Call ''to_dict'', Dumped]"
  by (rule conforms_eq, unfold cell_quantize_def, (rule conforms_cells)+) simp

lemma conforms_cell_config:
  "conforms L (cell_config L) [Opened ''r'', Loaded, Opened ''w'', Dumped]"
  by (rule conforms_eq, unfold cell_config_def, (rule conforms_cells)+) simp

lemma conforms_cell_helper: "conforms L cell_helper []"
  by (rule conforms_eq, unfold cell_helper_def, (rule conforms_cells)+) simp

lemma conforms_cell_baseline_load:
  "conforms L (cell_baseline_load L)
     [Call ''AutoTokenizer.from_pretrained'', Call ''AutoModelForCausalLM.from_pretrained'',
      Call ''pipeline'']"
  by (rule conforms_eq, unfold cell_baseline_load_def, (rule conforms_cells)+) simp

lemma conforms_cell_baseline_bench:
  "conforms L (cell_baseline_bench L) (helper_ops @ report_ops)"
  by (rule conforms_eq, unfold cell_baseline_bench_def, (rule conforms_cells)+) simp

lemma conforms_cell_cleanup:
  "conforms L (cell_cleanup L)
     [Deleted ''pipe'', Deleted ''model'', Deleted ''tokenizer'', Call ''torch.cuda.empty_cache'']"
  by (rule conforms_eq, unfold cell_cleanup_def, (rule conforms_cells)+) simp

lemma conforms_cell_quantized_load:
  "conforms L (cell_quantized_load L)
     [Call ''AutoTokenizer.from_pretrained'', Call ''AutoModelForCausalLM.from_pretrained'',
      Call ''pipeline'']"
  by (rule conforms_eq, unfold cell_quantized_load_def, (rule conforms_cells)+) simp

lemma conforms_cell_quantized_bench:
  "conforms L (cell_quantized_bench L) (helper_ops @ report_ops)"
  by (rule conforms_eq, unfold cell_quantized_bench_def, (rule conforms_cells)+) simp

lemma conforms_cell_tgi: "conforms L (cell_tgi L) [Call ''get_ipython().system'']"
  by (rule conforms_eq, unfold cell_tgi_def, (rule conforms_cells)+) simp

lemma conforms_run_all: "conforms L (run_all L) program_ops"
  by (rule conforms_eq, unfold run_all_def notebook_def,
      (rule conforms_block_Cons conforms_block_Nil
        conforms_cell_setup conforms_cell_dataset conforms_cell_quantizer conforms_cell_load
        conforms_cell_quantize conforms_cell_config conforms_cell_helper
        conforms_cell_baseline_load conforms_cell_baseline_bench conforms_cell_cleanup
        conforms_cell_quantized_load conforms_cell_quantized_bench conforms_cell_tgi)+)
     (simp add: program_ops_def helper_ops_def report_ops_def)

section \<open>The run of the whole notebook, cell by cell\<close>

lemma block_append:
  "block (xs @ ys) s = (Inr u, s') \<longleftrightarrow>
     (\<exists>a. block xs s = (Inr (), a) \<and> block ys a = (Inr (), s'))"
  by (induction xs arbitrary: s) (auto simp: ok)

lemma block_single: "block [m] s = (Inr u, s') \<longleftrightarrow> m s = (Inr (), s')"
  by (simp add: ok)

lemma conforms_success:
  assumes "conforms L m ops" and "m s = (Inr x, s')"
  shows "\<exists>evs. trace s' = trace s @ evs \<and> replays L evs (ext s) (ext s') \<and>
           map op_of evs = ops \<and> clean evs"
  using conformsD [OF assms] by simp

lemmas conforms_all_cells =
  conforms_block_Cons conforms_block_Nil
  conforms_cell_setup conforms_cell_dataset conforms_cell_quantizer conforms_cell_load
  conforms_cell_quantize conforms_cell_config conforms_cell_helper
  conforms_cell_baseline_load conforms_cell_baseline_bench conforms_cell_cleanup
  conforms_cell_quantized_load conforms_cell_quantized_bench conforms_cell_tgi

lemma take_9_notebook:
  "take 9 (notebook L) =
     [cell_setup L, cell_dataset, cell_quantizer L, cell_load L, cell_quantize L, cell_config L,
      cell_helper, cell_baseline_load L, cell_baseline_bench L]"
  by (simp add: notebook_def)

lemma drop_10_notebook:
  "drop 10 (notebook L) = [cell_quantized_load L, cell_quantized_bench L, cell_tgi L]"
  by (simp add: notebook_def)

lemma conforms_before_cleanup:
  "conforms L (block (take 9 (notebook L)))
     [Call ''get_ipython().system'',
      Call ''GPTQQuantizer'', Attr ''quant_method'',
      Call ''AutoTokenizer.from_pretrained'', Call ''AutoModelForCausalLM.from_pretrained'',
      Call ''quantize_model'', Call ''save_pretrained'', Call ''AutoTokenizer.from_pretrained'',
      Call ''save_pretrained'', Opened ''w'', Attr ''disable_exllama'', Call ''to_dict'', Dumped,
      Opened ''r'', Loaded, Opened ''w'', Dumped,
      Call ''AutoTokenizer.from_pretrained'', Call ''AutoModelForCausalLM.from_pretrained'',
      Call ''pipeline'',
      Called, Called, Called, Called, Called, Call ''time.time'', Called, Call ''time.time'', Called,
      Printed, Call ''torch.cuda.memory_allocated'', Printed, Printed]"
  unfolding take_9_notebook
  by (rule conforms_eq, (rule conforms_all_cells)+) (simp add: helper_ops_def report_ops_def)

lemma conforms_after_cleanup:
  "conforms L (block (drop 10 (notebook L)))
     [Call ''AutoTokenizer.from_pretrained'', Call ''AutoModelForCausalLM.from_pretrained'',
      Call ''pipeline'',
      Called, Called, Called, Called, Called, Call ''time.time'', Called, Call ''time.time'', Called,
      Printed, Call ''torch.cuda.memory_allocated'', Printed, Printed,
      Call ''get_ipython().system'']"
  unfolding drop_10_notebook
  by (rule conforms_eq, (rule conforms_all_cells)+) (simp add: helper_ops_def report_ops_def)

lemma notebook_split_cleanup:
  "notebook L = take 9 (notebook L) @ [cell_cleanup L] @ drop 10 (notebook L)"
  by (simp add: notebook_def)

lemma cell_cleanup_ok:
  assumes "cell_cleanup L a = (Inr u, b)"
  shows "\<exists>v. call L (Func ''torch.cuda.empty_cache'' [] []) (ext a) = (Inr v, ext b) \<and>
          globals b = AList.delete ''tokenizer'' (AList.delete ''model'' (AList.delete ''pipe'' (globals a))) \<and>
          trace b = trace a @ [Del ''pipe'', Del ''model'', Del ''tokenizer'',
             Lib (Func ''torch.cuda.empty_cache'' [] []) (Inr v)]"
  using assms by (clarsimp simp: cell_cleanup_def ok)

lemma count_list_prefix: "prefix xs ys \<Longrightarrow> count_list xs a \<le> count_list ys a"
  by (auto simp: prefix_def)

lemma cell_quantize_ok:
  assumes "cell_quantize L s = (Inr u, s')"
  shows "\<exists>k mdl tkz qm y1 u1 y2 mid tk y3 u2 y4 d y5 text.
     map_of (globals s) ''quantizer'' = Some (PObj k) \<and>
     map_of (globals s) ''model'' = Some mdl \<and>
     map_of (globals s) ''tokenizer'' = Some tkz \<and>
     map_of (globals s) ''model_id'' = Some mid \<and>
     call L (Method (PObj k) ''quantize_model'' [mdl, tkz] []) (ext s) = (Inr qm, y1) \<and>
     call L (Method qm ''save_pretrained'' [PStr ''quantized_llama'']
        [(''safe_serialization'', PBool True)]) y1 = (Inr u1, y2) \<and>
     call L (Func ''AutoTokenizer.from_pretrained'' [mid] []) y2 = (Inr tk, y3) \<and>
     call L (Method tk ''save_pretrained'' [PStr ''quantized_llama''] []) y3 = (Inr u2, y4) \<and>
     call L (Method (PObj k) ''to_dict'' [] [])
       (y4\<lparr>files := AList.update ''quantized_llama/quantize_config.json'' [] (files y4),
           objs := AList.update k (AList.update ''disable_exllama'' (PBool False) (attrs_of y4 k))
                     (objs y4)\<rparr>) = (Inr d, y5) \<and>
     json_dump L d 2 = (text, None) \<and>
     ext s' = y5\<lparr>files := AList.update ''quantized_llama/quantize_config.json''
                 (contents y5 ''quantized_llama/quantize_config.json'' @ text) (files y5)\<rparr> \<and>
     trace s' = trace s @
       [Lib (Method (PObj k) ''quantize_model'' [mdl, tkz] []) (Inr qm),
        Lib (Method qm ''save_pretrained'' [PStr ''quantized_llama'']
           [(''safe_serialization'', PBool True)]) (Inr u1),
        Lib (Func ''AutoTokenizer.from_pretrained'' [mid] []) (Inr tk),
        Lib (Method tk ''save_pretrained'' [PStr ''quantized_llama''] []) (Inr u2),
        FileOpen ''quantized_llama/quantize_config.json'' ''w'' None,
        SetAttr (PObj k) ''disable_exllama'' (PBool False),
        Lib (Method (PObj k) ''to_dict'' [] []) (Inr d),
        JsonDump d ''quantized_llama/quantize_config.json'' None]"
  using assms
  by (clarsimp simp: cell_quantize_def ok update_conv' path_join_def attrs_of_def)

lemma cell_quantized_load_ok:
  assumes "cell_quantized_load L s = (Inr u, s')"
  shows "\<exists>tok y1 m y2 p.
     call L (Func ''AutoTokenizer.from_pretrained'' [PStr ''quantized_llama''] []) (ext s) = (Inr tok, y1) \<and>
     call L (Func ''AutoModelForCausalLM.from_pretrained'' [PStr ''quantized_llama'']
        [(''device_map'', PStr ''auto''), (''torch_dtype'', PLib ''torch.float16'')]) y1 = (Inr m, y2) \<and>
     call L (Func ''pipeline'' [PStr ''text-generation''] [(''model'', m), (''tokenizer'', tok)]) y2 =
        (Inr p, ext s') \<and>
     trace s' = trace s @
       [Lib (Func ''AutoTokenizer.from_pretrained'' [PStr ''quantized_llama''] []) (Inr tok),
        Lib (Func ''AutoModelForCausalLM.from_pretrained'' [PStr ''quantized_llama'']
           [(''device_map'', PStr ''auto''), (''torch_dtype'', PLib ''torch.float16'')]) (Inr m),
        Lib (Func ''pipeline'' [PStr ''text-generation''] [(''model'', m), (''tokenizer'', tok)])
           (Inr p)]"
  using assms
  by (clarsimp simp: cell_quantized_load_def ok update_conv')

lemma cell_tgi_ok:
  assumes "cell_tgi L s = (Inr u, s')"
  shows "\<exists>r. call L (Func ''get_ipython().system'' [PStr docker_command] []) (ext s) = (Inr r, ext s') \<and>
     trace s' = trace s @ [Lib (Func ''get_ipython().system'' [PStr docker_command] []) (Inr r)]"
proof -
  have expand: "var_expand L (assemble_continued_line docker_lines) a = docker_command"
    if "globals a = AList.update ''max_total_tokens'' (PInt 4096)
      (AList.update ''max_input_length'' (PInt 1562)
        (AList.update ''quantize'' (PStr ''gptq'')
          (AList.update ''num_shard'' (PInt 1)
            (AList.update ''model'' (PStr ''/home/ubuntu/test-gptq'') g))))" for a g
    by (rule docker_expand) (simp_all add: that update_conv')
  from assms show ?thesis
    by (clarsimp simp: cell_tgi_def ok expand)
qed


lemma cell_quantize_trace:
  assumes "cell_quantize L s = (Inr u, s')"
  shows "\<exists>k mdl tkz qm u1 mid tk u2 d.
     trace s' = trace s @ quantize_events k mdl tkz qm u1 mid tk u2 d"
  using cell_quantize_ok [OF assms] unfolding quantize_events_def
  apply (elim exE conjE)
  apply (intro exI)
  apply assumption
  done

lemma cell_quantized_load_trace:
  assumes "cell_quantized_load L s = (Inr u, s')"
  shows "\<exists>tok m p. trace s' = trace s @ reload_events tok m p"
  using cell_quantized_load_ok [OF assms] unfolding reload_events_def
  apply (elim exE conjE)
  apply (intro exI)
  apply assumption
  done

lemma notebook_parts:
  "notebook L =
     [cell_setup L, cell_dataset, cell_quantizer L, cell_load L] @
     [cell_quantize L] @
     [cell_config L, cell_helper, cell_baseline_load L, cell_baseline_bench L, cell_cleanup L] @
     [cell_quantized_load L] @ [cell_quantized_bench L] @ [cell_tgi L]"
  by (simp add: notebook_def)

lemma conforms_first_cells:
  "conforms L (block [cell_setup L, cell_dataset, cell_quantizer L, cell_load L])
     [Call ''get_ipython().system'', Call ''GPTQQuantizer'', Attr ''quant_method'',
      Call ''AutoTokenizer.from_pretrained'', Call ''AutoModelForCausalLM.from_pretrained'']"
  by (rule conforms_eq, (rule conforms_all_cells)+) simp

lemma conforms_middle_cells:
  "conforms L
     (block [cell_config L, cell_helper, cell_baseline_load L, cell_baseline_bench L, cell_cleanup L])
     [Opened ''r'', Loaded, Opened ''w'', Dumped,
      Call ''AutoTokenizer.from_pretrained'', Call ''AutoModelForCausalLM.from_pretrained'',
      Call ''pipeline'',
      Called, Called, Called, Called, Called, Call ''time.time'', Called, Call ''time.time'', Called,
      Printed, Call ''torch.cuda.memory_allocated'', Printed, Printed,
      Deleted ''pipe'', Deleted ''model'', Deleted ''tokenizer'', Call ''torch.cuda.empty_cache'']"
  by (rule conforms_eq, (rule conforms_all_cells)+) (simp add: helper_ops_def report_ops_def)

lemma run_all_shape:
  assumes "run_all L s = (Inr u, s')"
  shows "\<exists>before k mdl tkz qm u1 mid tk u2 d middle tok m p bench r.
     trace s' = trace s @ before @ quantize_events k mdl tkz qm u1 mid tk u2 d @ middle @
        reload_events tok m p @ bench @
        [Lib (Func ''get_ipython().system'' [PStr docker_command] []) (Inr r)] \<and>
     map op_of before =
       [Call ''get_ipython().system'', Call ''GPTQQuantizer'', Attr ''quant_method'',
        Call ''AutoTokenizer.from_pretrained'', Call ''AutoModelForCausalLM.from_pretrained''] \<and>
     map op_of middle =
       [Opened ''r'', Loaded, Opened ''w'', Dumped,
        Call ''AutoTokenizer.from_pretrained'', Call ''AutoModelForCausalLM.from_pretrained'',
        Call ''pipeline'',
        Called, Called, Called, Called, Called, Call ''time.time'', Called, Call ''time.time'', Called,
        Printed, Call ''torch.cuda.memory_allocated'', Printed, Printed,
        Deleted ''pipe'', Deleted ''model'', Deleted ''tokenizer'', Call ''torch.cuda.empty_cache''] \<and>
     map op_of bench =
       [Called, Called, Called, Called, Called, Call ''time.time'', Called, Call ''time.time'', Called,
        Printed, Call ''torch.cuda.memory_allocated'', Printed, Printed]"
proof -
  from assms have "block (notebook L) s = (Inr u, s')"
    by (simp add: run_all_def)
  then have "\<exists>a b c d e.
      block [cell_setup L, cell_dataset, cell_quantizer L, cell_load L] s = (Inr (), a) \<and>
      cell_quantize L a = (Inr (), b) \<and>
      block [cell_config L, cell_helper, cell_baseline_load L, cell_baseline_bench L,
             cell_cleanup L] b = (Inr (), c) \<and>
      cell_quantized_load L c = (Inr (), d) \<and>
      cell_quantized_bench L d = (Inr (), e) \<and>
      cell_tgi L e = (Inr (), s')"
    unfolding notebook_parts
    by (simp only: block_append block_single) blast
  then obtain a b c d e where
    one: "block [cell_setup L, cell_dataset, cell_quantizer L, cell_load L] s = (Inr (), a)" and
    two: "cell_quantize L a = (Inr (), b)" and
    three: "block [cell_config L, cell_helper, cell_baseline_load L, cell_baseline_bench L,
             cell_cleanup L] b = (Inr (), c)" and
    four: "cell_quantized_load L c = (Inr (), d)" and
    five: "cell_quantized_bench L d = (Inr (), e)" and
    six: "cell_tgi L e = (Inr (), s')"
    by (elim exE conjE) (rule that, assumption+)
  from conforms_success [OF conforms_first_cells one] obtain before where
    t1: "trace a = trace s @ before" and o1: "map op_of before =
       [Call ''get_ipython().system'', Call ''GPTQQuantizer'', Attr ''quant_method'',
        Call ''AutoTokenizer.from_pretrained'', Call ''AutoModelForCausalLM.from_pretrained'']"
    by (elim exE conjE) (rule that, assumption+)
  from cell_quantize_trace [OF two] obtain k mdl tkz qm u1 mid tk u2 dd where
    t2: "trace b = trace a @ quantize_events k mdl tkz qm u1 mid tk u2 dd"
    by (elim exE conjE) (rule that, assumption+)
  from conforms_success [OF conforms_middle_cells three] obtain middle where
    t3: "trace c = trace b @ middle" and o3: "map op_of middle =
       [Opened ''r'', Loaded, Opened ''w'', Dumped,
        Call ''AutoTokenizer.from_pretrained'', Call ''AutoModelForCausalLM.from_pretrained'',
        Call ''pipeline'',
        Called, Called, Called, Called, Called, Call ''time.time'', Called, Call ''time.time'', Called,
        Printed, Call ''torch.cuda.memory_allocated'', Printed, Printed,
        Deleted ''pipe'', Deleted ''model'', Deleted ''tokenizer'', Call ''torch.cuda.empty_cache'']"
    by (elim exE conjE) (rule that, assumption+)
  from cell_quantized_load_trace [OF four] obtain tok m p where
    t4: "trace d = trace c @ reload_events tok m p"
    by (elim exE conjE) (rule that, assumption+)
  from conforms_success [OF conforms_cell_quantized_bench five, unfolded helper_ops_def report_ops_def append.simps]
  obtain bench where
    t5: "trace e = trace d @ bench" and o5: "map op_of bench =
       [Called, Called, Called, Called, Called, Call ''time.time'', Called, Call ''time.time'', Called,
        Printed, Call ''torch.cuda.memory_allocated'', Printed, Printed]"
    by (elim exE conjE) (rule that, assumption+)
  from cell_tgi_ok [OF six] obtain r where
    t6: "trace s' = trace e @ [Lib (Func ''get_ipython().system'' [PStr docker_command] []) (Inr r)]"
    by (elim exE conjE) (rule that, assumption+)
  have t: "trace s' = trace s @ before @ quantize_events k mdl tkz qm u1 mid tk u2 dd @ middle @
        reload_events tok m p @ bench @
        [Lib (Func ''get_ipython().system'' [PStr docker_command] []) (Inr r)]"
    unfolding t6 t5 t4 t3 t2 t1 by (simp only: append_assoc)
  from t o1 o3 o5 show ?thesis
    apply (intro exI conjI)
    apply assumption+
    done
qed

text \<open>
  The toy library runs the whole notebook without an exception.
\<close>

lemma toy_run_returns: "fst (run_all toy (fresh 0)) = Inr ()"
  by (simp add: run_all_def notebook_def cell_defs fresh_def run python_defs toy_defs
      pip_expand docker_expand generate_helper_def upt_rec show_int_def show_nat.simps digit_char_def
      Let_def cong: weak_congs)

section \<open>The quantizer's inputs\<close>

text \<open>
  C2. The quantizer object is constructed with exactly three configuration
  inputs: the bit width 4, the calibration dataset identifier "wikitext2" and
  the maximum sequence length 4096. Running the dataset cell and then the
  quantizer cell makes exactly one library call, the constructor
  \<open>GPTQQuantizer\<close> with no positional argument and these three keyword
  arguments, in the outside world \<open>ext s\<close> the cells started in. Let the call
  return or raise \<open>r\<close> and leave the world \<open>y\<close>. If it raised, the cells raise
  the same exception and leave \<open>y\<close>. If it returned an object, the variable
  \<open>quantizer\<close> is bound to that object, the object's attribute
  \<open>quant_method\<close> is set to "gptq" in \<open>y\<close> (after the construction, not as an
  input of it), and the cells return. If it returned something that is not
  an object, setting the attribute raises.
\<close>

theorem quantizer_inputs:
  assumes "call L (Func ''GPTQQuantizer'' []
       [(''bits'', PInt 4), (''dataset'', PStr ''wikitext2''), (''model_seqlen'', PInt 4096)]) (ext s) = (r, y)"
  shows "block [cell_dataset, cell_quantizer L] s =
     (case r of
        Inl e \<Rightarrow>
          (Inl e,
           s\<lparr>globals := AList.update ''dataset_id'' (PStr ''wikitext2'') (globals s),
             ext := y,
             trace := trace s @ [Lib (Func ''GPTQQuantizer'' []
       [(''bits'', PInt 4), (''dataset'', PStr ''wikitext2''), (''model_seqlen'', PInt 4096)]) (Inl e)]\<rparr>)
      | Inr q \<Rightarrow>
          (case q of
             PObj k \<Rightarrow>
               (Inr (),
                s\<lparr>globals := AList.update ''quantizer'' (PObj k)
                    (AList.update ''dataset_id'' (PStr ''wikitext2'') (globals s)),
                  ext := y\<lparr>objs := AList.update k
                    (AList.update ''quant_method'' (PStr ''gptq'') (attrs_of y k)) (objs y)\<rparr>,
                  trace := trace s @
                    [Lib (Func ''GPTQQuantizer'' []
       [(''bits'', PInt 4), (''dataset'', PStr ''wikitext2''), (''model_seqlen'', PInt 4096)]) (Inr (PObj k)),
                     SetAttr (PObj k) ''quant_method'' (PStr ''gptq'')]\<rparr>)
           | _ \<Rightarrow>
               (Inl (AttributeError ''quant_method''),
                s\<lparr>globals := AList.update ''quantizer'' q
                    (AList.update ''dataset_id'' (PStr ''wikitext2'') (globals s)),
                  ext := y,
                  trace := trace s @ [Lib (Func ''GPTQQuantizer'' []
       [(''bits'', PInt 4), (''dataset'', PStr ''wikitext2''), (''model_seqlen'', PInt 4096)]) (Inr q)]\<rparr>)))"
  using assms
  by (auto simp: cell_dataset_def cell_quantizer_def run setattr_def update_conv'
        split: sum.splits pyval.splits)

theorem quantizer_inputs_witness:
  "block [cell_dataset, cell_quantizer toy] (fresh 0) =
     (Inr (),
      \<lparr>globals = [(''dataset_id'', PStr ''wikitext2''), (''quantizer'', PObj 1)],
       ext = \<lparr>objs = [(1, [(''bits'', PInt 4), (''dataset'', PStr ''wikitext2''),
                            (''model_seqlen'', PInt 4096), (''quant_method'', PStr ''gptq'')])],
              files = [], world = 0\<rparr>,
       trace = [Lib (Func ''GPTQQuantizer'' []
       [(''bits'', PInt 4), (''dataset'', PStr ''wikitext2''), (''model_seqlen'', PInt 4096)]) (Inr (PObj 1)),
                SetAttr (PObj 1) ''quant_method'' (PStr ''gptq'')]\<rparr>)"
proof -
  have made: "call toy (Func ''GPTQQuantizer'' []
       [(''bits'', PInt 4), (''dataset'', PStr ''wikitext2''), (''model_seqlen'', PInt 4096)]) (ext (fresh 0)) =
      (Inr (PObj 1),
       \<lparr>objs = [(1, [(''bits'', PInt 4), (''dataset'', PStr ''wikitext2''),
                       (''model_seqlen'', PInt 4096)])],
        files = [], world = 0\<rparr>)"
    by (simp add: toy_defs fresh_def)
  show ?thesis
    using quantizer_inputs [OF made] by (simp add: fresh_def attrs_of_def)
qed

section \<open>The container invocation\<close>

text \<open>
  C9. The inference server is started by a container run command that passes
  exactly the environment variables MODEL_ID (the model path), QUANTIZE=gptq,
  NUM_SHARD=1, MAX_INPUT_LENGTH=1562 and MAX_TOTAL_TOKENS=4096, against a
  fixed image. The last cell binds its five variables and hands exactly one
  command line to the shell, \<open>docker_command\<close>, in the outside world \<open>ext s\<close> it
  started in; whatever the shell call returns or raises and whatever world
  \<open>y\<close> it leaves is the cell's outcome and the cell's world. The words of
  \<open>docker_command\<close> start with \<open>docker run\<close>, the arguments after its \<open>-e\<close>
  options are these five, and its last word is the image.
\<close>

theorem container_invocation:
  assumes "call L (Func ''get_ipython().system'' [PStr docker_command] []) (ext s) = (r, y)"
  shows "cell_tgi L s =
     ((case r of Inl e \<Rightarrow> Inl e | Inr v \<Rightarrow> Inr ()),
      s\<lparr>globals := AList.update ''max_total_tokens'' (PInt 4096)
         (AList.update ''max_input_length'' (PInt 1562)
         (AList.update ''quantize'' (PStr ''gptq'')
         (AList.update ''num_shard'' (PInt 1)
         (AList.update ''model'' (PStr ''/home/ubuntu/test-gptq'') (globals s))))),
       ext := y,
       trace := trace s @ [Lib (Func ''get_ipython().system'' [PStr docker_command] []) r]\<rparr>) \<and>
   take 2 (words docker_command) = [''docker'', ''run''] \<and>
   env_args (words docker_command) =
     [''MODEL_ID=/home/ubuntu/test-gptq'', ''QUANTIZE=gptq'', ''NUM_SHARD=1'',
      ''MAX_INPUT_LENGTH=1562'', ''MAX_TOTAL_TOKENS=4096''] \<and>
   last (words docker_command) = ''ghcr.io/huggingface/text-generation-inference:1.0.3''"
proof -
  let ?g = "AList.update ''max_total_tokens'' (PInt 4096)
     (AList.update ''max_input_length'' (PInt 1562)
     (AList.update ''quantize'' (PStr ''gptq'')
     (AList.update ''num_shard'' (PInt 1)
     (AList.update ''model'' (PStr ''/home/ubuntu/test-gptq'') (globals s)))))"
  have expand: "var_expand L (assemble_continued_line docker_lines) (s\<lparr>globals := ?g\<rparr>) = docker_command"
    by (rule docker_expand) (simp_all add: update_conv')
  have ran: "cell_tgi L s =
     ((case r of Inl e \<Rightarrow> Inl e | Inr v \<Rightarrow> Inr ()),
      s\<lparr>globals := ?g, ext := y,
       trace := trace s @ [Lib (Func ''get_ipython().system'' [PStr docker_command] []) r]\<rparr>)"
    using assms by (auto simp add: cell_tgi_def run expand split: sum.splits)
  have parsed: "words docker_command =
      [''docker'', ''run'', ''--gpus'', ''all'', ''-ti'', ''-p'', ''8080:80'',
       ''-e'', ''MODEL_ID=/home/ubuntu/test-gptq'', ''-e'', ''QUANTIZE=gptq'',
       ''-e'', ''NUM_SHARD=1'', ''-e'', ''MAX_INPUT_LENGTH=1562'',
       ''-e'', ''MAX_TOTAL_TOKENS=4096'',
       ''-v'', ''/home/ubuntu/test-gptq:/home/ubuntu/test-gptq'',
       ''ghcr.io/huggingface/text-generation-inference:1.0.3'']"
    by (simp add: words_def docker_command_def)
  show ?thesis
    unfolding parsed using ran by simp
qed

theorem container_invocation_witness:
  "cell_tgi toy (fresh 0) =
     (Inr (),
      \<lparr>globals = [(''model'', PStr ''/home/ubuntu/test-gptq''), (''num_shard'', PInt 1),
                  (''quantize'', PStr ''gptq''), (''max_input_length'', PInt 1562),
                  (''max_total_tokens'', PInt 4096)],
       ext = \<lparr>objs = [], files = [], world = 0\<rparr>,
       trace = [Lib (Func ''get_ipython().system'' [PStr docker_command] []) (Inr PNone)]\<rparr>)"
proof -
  have ran: "call toy (Func ''get_ipython().system'' [PStr docker_command] []) (ext (fresh 0)) =
      (Inr PNone, \<lparr>objs = [], files = [], world = 0\<rparr>)"
    by (simp add: toy_defs fresh_def)
  show ?thesis
    using container_invocation [OF ran] by (simp add: fresh_def)
qed

section \<open>The benchmarking helper\<close>

lemma generate_helper_returns:
  "generate_helper L p prompt s = (Inr res, s') \<longleftrightarrow>
   (\<exists>w1 y1 w2 y2 w3 y3 w4 y4 w5 y5 t0 y6 out y7 t1 y8 k tok gen elapsed enc y9 ids n per_token.
     call L (Invoke p [PStr ''Warm up''] []) (ext s) = (Inr w1, y1) \<and>
     call L (Invoke p [PStr ''Warm up''] []) y1 = (Inr w2, y2) \<and>
     call L (Invoke p [PStr ''Warm up''] []) y2 = (Inr w3, y3) \<and>
     call L (Invoke p [PStr ''Warm up''] []) y3 = (Inr w4, y4) \<and>
     call L (Invoke p [PStr ''Warm up''] []) y4 = (Inr w5, y5) \<and>
     call L (Func ''time.time'' [] []) y5 = (Inr t0, y6) \<and>
     call L (Invoke p [prompt] (timed_kwargs L)) y6 = (Inr out, y7) \<and>
     call L (Func ''time.time'' [] []) y7 = (Inr t1, y8) \<and>
     generated_beyond out prompt = Inr gen \<and>
     py_sub L t1 t0 = Inr elapsed \<and>
     p = PObj k \<and> map_of (attrs_of y8 k) ''tokenizer'' = Some tok \<and>
     call L (Invoke tok [gen] []) y8 = (Inr enc, y9) \<and>
     getitem enc ''input_ids'' = Inr ids \<and> py_len ids = Inr n \<and>
     py_truediv L elapsed (int n) = Inr per_token \<and>
     res = PDict [(''text'', gen),
       (''latency'', PStr (float_str L (float_round L
                (float_mul L per_token (float_of_int L 1000)) 2) @ ''ms/token''))] \<and>
     s' = s\<lparr>ext := y9, trace := trace s @
       [Lib (Invoke p [PStr ''Warm up''] []) (Inr w1),
        Lib (Invoke p [PStr ''Warm up''] []) (Inr w2),
        Lib (Invoke p [PStr ''Warm up''] []) (Inr w3),
        Lib (Invoke p [PStr ''Warm up''] []) (Inr w4),
        Lib (Invoke p [PStr ''Warm up''] []) (Inr w5),
        Lib (Func ''time.time'' [] []) (Inr t0),
        Lib (Invoke p [prompt] (timed_kwargs L)) (Inr out),
        Lib (Func ''time.time'' [] []) (Inr t1),
        Lib (Invoke tok [gen] []) (Inr enc)]\<rparr>)"
  (is "?lhs \<longleftrightarrow> ?rhs")
proof
  assume ?lhs
  then show ?rhs
    by (cases s, cases s') (clarsimp simp: generate_helper_def ok upt_rec timed_kwargs_def)
next
  assume ?rhs
  then show ?lhs
    by (clarsimp simp: generate_helper_def run upt_rec timed_kwargs_def getattr_def)
qed

text \<open>
  C4. \<open>generate_helper\<close> measures latency as a timer around a single generation
  call: five warm-up calls of the pipeline come first and lie outside the
  measured interval, the clock is read immediately before and immediately
  after exactly one call of the pipeline on the prompt, and the reported
  latency per token is computed from these two readings and the output of
  that one call only. \<open>generate_helper\<close> returns \<open>res\<close> in the state \<open>s'\<close> exactly
  when: five calls of the pipeline on "Warm up" return, each in the world
  the one before left; then \<open>time.time\<close> returns \<open>t0\<close>; then one call of the
  pipeline on the prompt returns \<open>out\<close>; then \<open>time.time\<close> returns \<open>t1\<close>; the
  pipeline's attribute \<open>tokenizer\<close> is then called on the text of \<open>out\<close> beyond
  the prompt and returns an encoding with \<open>n\<close> token ids; \<open>(t1 - t0) / n\<close> is
  defined; \<open>res\<close> holds that text and \<open>((t1 - t0) / n) * 1000\<close> rounded to two
  places; and \<open>s'\<close> is \<open>s\<close> with the world that the last call left and these
  nine calls added to the trace.
\<close>

theorem helper_times_one_call:
  "generate_helper L p prompt s = (Inr res, s') \<longleftrightarrow>
   (\<exists>w1 y1 w2 y2 w3 y3 w4 y4 w5 y5 t0 y6 out y7 t1 y8 k tok gen elapsed enc y9 ids n per_token.
     call L (Invoke p [PStr ''Warm up''] []) (ext s) = (Inr w1, y1) \<and>
     call L (Invoke p [PStr ''Warm up''] []) y1 = (Inr w2, y2) \<and>
     call L (Invoke p [PStr ''Warm up''] []) y2 = (Inr w3, y3) \<and>
     call L (Invoke p [PStr ''Warm up''] []) y3 = (Inr w4, y4) \<and>
     call L (Invoke p [PStr ''Warm up''] []) y4 = (Inr w5, y5) \<and>
     call L (Func ''time.time'' [] []) y5 = (Inr t0, y6) \<and>
     call L (Invoke p [prompt] (timed_kwargs L)) y6 = (Inr out, y7) \<and>
     call L (Func ''time.time'' [] []) y7 = (Inr t1, y8) \<and>
     generated_beyond out prompt = Inr gen \<and>
     py_sub L t1 t0 = Inr elapsed \<and>
     p = PObj k \<and> map_of (attrs_of y8 k) ''tokenizer'' = Some tok \<and>
     call L (Invoke tok [gen] []) y8 = (Inr enc, y9) \<and>
     getitem enc ''input_ids'' = Inr ids \<and> py_len ids = Inr n \<and>
     py_truediv L elapsed (int n) = Inr per_token \<and>
     res = PDict [(''text'', gen),
       (''latency'', PStr (float_str L (float_round L
                (float_mul L per_token (float_of_int L 1000)) 2) @ ''ms/token''))] \<and>
     s' = s\<lparr>ext := y9, trace := trace s @
       [Lib (Invoke p [PStr ''Warm up''] []) (Inr w1),
        Lib (Invoke p [PStr ''Warm up''] []) (Inr w2),
        Lib (Invoke p [PStr ''Warm up''] []) (Inr w3),
        Lib (Invoke p [PStr ''Warm up''] []) (Inr w4),
        Lib (Invoke p [PStr ''Warm up''] []) (Inr w5),
        Lib (Func ''time.time'' [] []) (Inr t0),
        Lib (Invoke p [prompt] (timed_kwargs L)) (Inr out),
        Lib (Func ''time.time'' [] []) (Inr t1),
        Lib (Invoke tok [gen] []) (Inr enc)]\<rparr>)"
  by (rule generate_helper_returns)

theorem helper_times_one_call_witness:
  "\<exists>res s'. generate_helper toy (PObj 1) (PStr ''Hi'') pipeline_state = (Inr res, s') \<and>
     world (ext s') = 3024 \<and>
     (\<exists>w1 y1 w2 y2 w3 y3 w4 y4 w5 y5 t0 y6 out y7 t1 y8 k tok gen elapsed enc y9 ids n per_token.
       call toy (Invoke (PObj 1) [PStr ''Warm up''] []) (ext pipeline_state) = (Inr w1, y1) \<and>
       call toy (Invoke (PObj 1) [PStr ''Warm up''] []) y1 = (Inr w2, y2) \<and>
       call toy (Invoke (PObj 1) [PStr ''Warm up''] []) y2 = (Inr w3, y3) \<and>
       call toy (Invoke (PObj 1) [PStr ''Warm up''] []) y3 = (Inr w4, y4) \<and>
       call toy (Invoke (PObj 1) [PStr ''Warm up''] []) y4 = (Inr w5, y5) \<and>
       call toy (Func ''time.time'' [] []) y5 = (Inr t0, y6) \<and>
       call toy (Invoke (PObj 1) [PStr ''Hi''] (timed_kwargs toy)) y6 = (Inr out, y7) \<and>
       call toy (Func ''time.time'' [] []) y7 = (Inr t1, y8) \<and>
       generated_beyond out (PStr ''Hi'') = Inr gen \<and>
       py_sub toy t1 t0 = Inr elapsed \<and>
       (PObj 1 :: int pyval) = PObj k \<and> map_of (attrs_of y8 k) ''tokenizer'' = Some tok \<and>
       call toy (Invoke tok [gen] []) y8 = (Inr enc, y9) \<and>
       getitem enc ''input_ids'' = Inr ids \<and> py_len ids = Inr n \<and>
       py_truediv toy elapsed (int n) = Inr per_token \<and>
       res = PDict [(''text'', gen),
         (''latency'', PStr (float_str toy (float_round toy
                  (float_mul toy per_token (float_of_int toy 1000)) 2) @ ''ms/token''))] \<and>
       s' = pipeline_state\<lparr>ext := y9, trace := trace pipeline_state @
         [Lib (Invoke (PObj 1) [PStr ''Warm up''] []) (Inr w1),
          Lib (Invoke (PObj 1) [PStr ''Warm up''] []) (Inr w2),
          Lib (Invoke (PObj 1) [PStr ''Warm up''] []) (Inr w3),
          Lib (Invoke (PObj 1) [PStr ''Warm up''] []) (Inr w4),
          Lib (Invoke (PObj 1) [PStr ''Warm up''] []) (Inr w5),
          Lib (Func ''time.time'' [] []) (Inr t0),
          Lib (Invoke (PObj 1) [PStr ''Hi''] (timed_kwargs toy)) (Inr out),
          Lib (Func ''time.time'' [] []) (Inr t1),
          Lib (Invoke tok [gen] []) (Inr enc)]\<rparr>)"
proof -
  let ?run = "generate_helper toy (PObj 1) (PStr ''Hi'') pipeline_state"
  have "fst ?run =
      Inr (PDict [(''text'', PStr ''Write a letter''), (''latency'', PStr ''36000ms/token'')])"
    and w: "world (ext (snd ?run)) = 3024"
    by (simp_all add: generate_helper_def pipeline_state_def run python_defs toy_defs upt_rec
        show_int_def show_nat.simps digit_char_def cong: weak_congs)
  then have run: "?run =
      (Inr (PDict [(''text'', PStr ''Write a letter''), (''latency'', PStr ''36000ms/token'')]),
       snd ?run)"
    by (simp add: prod_eq_iff)
  from helper_times_one_call [THEN iffD1, OF run] run w show ?thesis
    apply (elim exE conjE)
    apply (intro exI conjI)
    apply assumption+
    done
qed



section \<open>The config.json rewrite\<close>

lemma getitem_ok: "getitem v k = Inr x \<longleftrightarrow> (\<exists>d. v = PDict d \<and> map_of d k = Some x)"
  by (auto simp: getitem_def split: pyval.splits option.splits)

lemma setitem_ok: "setitem v k x = Inr v' \<longleftrightarrow> (\<exists>d. v = PDict d \<and> v' = PDict (AList.update k x d))"
  by (auto simp: setitem_def split: pyval.splits)

lemma path_join_ok: "path_join a b = Inr p \<Longrightarrow> \<exists>path. p = PStr path"
  by (auto simp: path_join_def split: pyval.splits)

lemma others_update: "filter (\<lambda>p. fst p \<noteq> k) (AList.update k v al) = filter (\<lambda>p. fst p \<noteq> k) al"
  by (induction al) auto

lemma keys_update: "map_of al k = Some x \<Longrightarrow> map fst (AList.update k v al) = map fst al"
  by (induction al) (auto split: if_splits)

lemma contents_files [simp]: "contents (y\<lparr>files := AList.update p t fs\<rparr>) p = t"
  by (simp add: contents_def update_conv')

lemma contents_objs [simp]: "contents (y\<lparr>objs := os\<rparr>) p = contents y p"
  by (simp add: contents_def)

lemma attrs_of_files [simp]: "attrs_of (y\<lparr>files := fs\<rparr>) k = attrs_of y k"
  by (simp add: attrs_of_def)

lemma others_files: "filter (\<lambda>q. fst q \<noteq> p) (AList.update p t (AList.update p t' fs)) = filter (\<lambda>q. fst q \<noteq> p) fs"
  by (simp add: others_update)

text \<open>
  C6. The rewrite cell reads the saved model's \<open>config.json\<close>, sets only the
  field \<open>disable_exllama\<close> inside \<open>quantization_config\<close> to False, and writes
  the result back; every other key and value of the loaded configuration is
  written back unchanged. Whenever the cell returns: it loaded a dictionary
  \<open>d\<close> from \<open>config.json\<close> in the save folder and dumped a dictionary \<open>d'\<close> to
  the same path, which then holds exactly what the serialiser wrote; \<open>d'\<close> has
  the keys of \<open>d\<close> in the same order and the same entries for every key but
  \<open>quantization_config\<close>; the inner dictionary of \<open>d'\<close> has \<open>disable_exllama\<close>
  False and the same entries as the inner dictionary of \<open>d\<close> for every other
  key; no other file, no object and nothing else of the outside world changed.
\<close>

theorem config_rewrite_frame:
  assumes "cell_config L s = (Inr u, s')"
  shows "\<exists>save_folder path d inner d' inner' txt.
      map_of (globals s) ''save_folder'' = Some save_folder \<and>
      path_join save_folder (PStr ''config.json'') = Inr (PStr path) \<and>
      json_load L (contents (ext s) path) = Inr (PDict d) \<and>
      map_of d ''quantization_config'' = Some (PDict inner) \<and>
      trace s' = trace s @
        [FileOpen path ''r'' None, JsonLoad path (Inr (PDict d)),
         FileOpen path ''w'' None, JsonDump (PDict d') path None] \<and>
      json_dump L (PDict d') 2 = (txt, None) \<and> contents (ext s') path = txt \<and>
      map_of d' ''quantization_config'' = Some (PDict inner') \<and>
      map_of inner' ''disable_exllama'' = Some (PBool False) \<and>
      filter (\<lambda>p. fst p \<noteq> ''disable_exllama'') inner' =
        filter (\<lambda>p. fst p \<noteq> ''disable_exllama'') inner \<and>
      filter (\<lambda>p. fst p \<noteq> ''quantization_config'') d' =
        filter (\<lambda>p. fst p \<noteq> ''quantization_config'') d \<and>
      map fst d' = map fst d \<and>
      filter (\<lambda>p. fst p \<noteq> path) (files (ext s')) = filter (\<lambda>p. fst p \<noteq> path) (files (ext s)) \<and>
      objs (ext s') = objs (ext s) \<and> world (ext s') = world (ext s)"
  using assms
  apply (clarsimp simp: cell_config_def ok update_conv' getitem_ok setitem_ok)
  apply (frule path_join_ok)
  apply (clarsimp simp: ok update_conv' others_update keys_update)
  done

theorem config_rewrite_frame_witness:
  "\<exists>s'. cell_config toy config_state = (Inr (), s') \<and>
     (\<exists>save_folder path d inner d' inner' txt.
           map_of (globals config_state) ''save_folder'' = Some save_folder \<and>
           path_join save_folder (PStr ''config.json'') = Inr (PStr path) \<and>
           json_load toy (contents (ext config_state) path) = Inr (PDict d) \<and>
           map_of d ''quantization_config'' = Some (PDict inner) \<and>
           trace s' = trace config_state @
             [FileOpen path ''r'' None, JsonLoad path (Inr (PDict d)),
              FileOpen path ''w'' None, JsonDump (PDict d') path None] \<and>
           json_dump toy (PDict d') 2 = (txt, None) \<and> contents (ext s') path = txt \<and>
           map_of d' ''quantization_config'' = Some (PDict inner') \<and>
           map_of inner' ''disable_exllama'' = Some (PBool False) \<and>
           filter (\<lambda>p. fst p \<noteq> ''disable_exllama'') inner' =
             filter (\<lambda>p. fst p \<noteq> ''disable_exllama'') inner \<and>
           filter (\<lambda>p. fst p \<noteq> ''quantization_config'') d' =
             filter (\<lambda>p. fst p \<noteq> ''quantization_config'') d \<and>
           map fst d' = map fst d \<and>
           filter (\<lambda>p. fst p \<noteq> path) (files (ext s')) = filter (\<lambda>p. fst p \<noteq> path) (files (ext config_state)) \<and>
           objs (ext s') = objs (ext config_state) \<and> world (ext s') = world (ext config_state))"
proof -
  have "fst (cell_config toy config_state) = Inr ()"
    by (simp add: cell_config_def config_state_def run python_defs toy_defs Let_def
        cong: weak_congs)
  then have run: "cell_config toy config_state = (Inr (), snd (cell_config toy config_state))"
    by (simp add: prod_eq_iff)
  from config_rewrite_frame [OF run] run show ?thesis
    by blast
qed

section \<open>Failures of the libraries\<close>




section \<open>Release of GPU memory\<close>

text \<open>
  C8. GPU memory is explicitly freed exactly once in the whole program, by a
  single cleanup cell that deletes the baseline pipeline, model and tokenizer
  and calls \<open>torch.cuda.empty_cache()\<close> one time, after the baseline benchmark
  and before the quantized model is loaded; no other cell releases GPU memory
  explicitly. For every library \<open>L\<close> and every start state: a run of the
  notebook that raises has called \<open>torch.cuda.empty_cache\<close> at most once. A run
  that returns is the first nine cells, from a state \<open>s\<close> to a state \<open>a\<close>, then
  the cleanup cell from \<open>a\<close> to \<open>b\<close>, then the last three cells from \<open>b\<close>. The
  cleanup cell removes \<open>pipe\<close>, \<open>model\<close> and \<open>tokenizer\<close> from the namespace
  and applies \<open>call L\<close> once, to \<open>torch.cuda.empty_cache\<close> without arguments, in
  the world of \<open>a\<close>, which gives the world of \<open>b\<close>. The operations before it
  end with those of the baseline benchmark and the operations after it start
  with the two \<open>from_pretrained\<close> calls of the quantized model; neither
  contains \<open>torch.cuda.empty_cache\<close>, and both replay through \<open>call L\<close>.
\<close>

theorem gpu_memory_freed_once:
  assumes "run_all L s = (out, s')"
  shows "case out of
       Inl e \<Rightarrow>
         (\<exists>evs. trace s' = trace s @ evs \<and> replays L evs (ext s) (ext s') \<and>
            count_list (map op_of evs) (Call ''torch.cuda.empty_cache'') \<le> 1)
     | Inr u \<Rightarrow>
         (\<exists>a b v before after.
            block (take 9 (notebook L)) s = (Inr (), a) \<and>
            cell_cleanup L a = (Inr (), b) \<and>
            block (drop 10 (notebook L)) b = (Inr (), s') \<and>
            trace a = trace s @ before \<and> replays L before (ext s) (ext a) \<and>
            map op_of before =
              [Call ''get_ipython().system'',
               Call ''GPTQQuantizer'', Attr ''quant_method'',
               Call ''AutoTokenizer.from_pretrained'', Call ''AutoModelForCausalLM.from_pretrained'',
               Call ''quantize_model'', Call ''save_pretrained'',
               Call ''AutoTokenizer.from_pretrained'', Call ''save_pretrained'',
               Opened ''w'', Attr ''disable_exllama'', Call ''to_dict'', Dumped,
               Opened ''r'', Loaded, Opened ''w'', Dumped,
               Call ''AutoTokenizer.from_pretrained'', Call ''AutoModelForCausalLM.from_pretrained'',
               Call ''pipeline'',
               Called, Called, Called, Called, Called,
               Call ''time.time'', Called, Call ''time.time'', Called,
               Printed, Call ''torch.cuda.memory_allocated'', Printed, Printed] \<and>
            call L (Func ''torch.cuda.empty_cache'' [] []) (ext a) = (Inr v, ext b) \<and>
            globals b =
              AList.delete ''tokenizer'' (AList.delete ''model'' (AList.delete ''pipe'' (globals a))) \<and>
            trace b = trace a @ [Del ''pipe'', Del ''model'', Del ''tokenizer'',
               Lib (Func ''torch.cuda.empty_cache'' [] []) (Inr v)] \<and>
            trace s' = trace b @ after \<and> replays L after (ext b) (ext s') \<and>
            map op_of after =
              [Call ''AutoTokenizer.from_pretrained'', Call ''AutoModelForCausalLM.from_pretrained'',
               Call ''pipeline'',
               Called, Called, Called, Called, Called,
               Call ''time.time'', Called, Call ''time.time'', Called,
               Printed, Call ''torch.cuda.memory_allocated'', Printed, Printed,
               Call ''get_ipython().system''])"
proof (cases out)
  case (Inl e)
  from conformsD [OF conforms_run_all assms] Inl obtain evs where
    "trace s' = trace s @ evs" "replays L evs (ext s) (ext s')"
    "prefix (map op_of evs) program_ops"
    by auto
  moreover have "count_list program_ops (Call ''torch.cuda.empty_cache'') = 1"
    by (simp add: program_ops_def)
  ultimately show ?thesis
    using Inl count_list_prefix [of "map op_of evs" program_ops "Call ''torch.cuda.empty_cache''"]
    by auto
next
  case (Inr u)
  with assms have "block (notebook L) s = (Inr u, s')"
    by (simp add: run_all_def)
  then have "block (take 9 (notebook L) @ [cell_cleanup L] @ drop 10 (notebook L)) s = (Inr u, s')"
    by (simp only: notebook_split_cleanup [symmetric])
  then have "\<exists>a b. block (take 9 (notebook L)) s = (Inr (), a) \<and>
      cell_cleanup L a = (Inr (), b) \<and> block (drop 10 (notebook L)) b = (Inr (), s')"
    by (simp only: block_append append_Cons append_Nil) (auto simp: ok)
  then obtain a b where
    one: "block (take 9 (notebook L)) s = (Inr (), a)" and
    two: "cell_cleanup L a = (Inr (), b)" and
    three: "block (drop 10 (notebook L)) b = (Inr (), s')"
    by blast
  show ?thesis
    unfolding Inr sum.case
    using one two three
       conforms_success [OF conforms_before_cleanup one]
       cell_cleanup_ok [OF two]
       conforms_success [OF conforms_after_cleanup three]
    apply (elim exE conjE)
    apply (intro exI conjI)
    apply assumption+
    done
qed

theorem gpu_memory_freed_once_witness:
  "\<exists>a b v before after.
            block (take 9 (notebook toy)) (fresh 0) = (Inr (), a) \<and>
            cell_cleanup toy a = (Inr (), b) \<and>
            block (drop 10 (notebook toy)) b = (Inr (), snd (run_all toy (fresh 0))) \<and>
            trace a = trace (fresh 0 :: (int, nat) state) @ before \<and> replays toy before (ext (fresh 0)) (ext a) \<and>
            map op_of before =
              [Call ''get_ipython().system'',
               Call ''GPTQQuantizer'', Attr ''quant_method'',
               Call ''AutoTokenizer.from_pretrained'', Call ''AutoModelForCausalLM.from_pretrained'',
               Call ''quantize_model'', Call ''save_pretrained'',
               Call ''AutoTokenizer.from_pretrained'', Call ''save_pretrained'',
               Opened ''w'', Attr ''disable_exllama'', Call ''to_dict'', Dumped,
               Opened ''r'', Loaded, Opened ''w'', Dumped,
               Call ''AutoTokenizer.from_pretrained'', Call ''AutoModelForCausalLM.from_pretrained'',
               Call ''pipeline'',
               Called, Called, Called, Called, Called,
               Call ''time.time'', Called, Call ''time.time'', Called,
               Printed, Call ''torch.cuda.memory_allocated'', Printed, Printed] \<and>
            call toy (Func ''torch.cuda.empty_cache'' [] []) (ext a) = (Inr v, ext b) \<and>
            globals b =
              AList.delete ''tokenizer'' (AList.delete ''model'' (AList.delete ''pipe'' (globals a))) \<and>
            trace b = trace a @ [Del ''pipe'', Del ''model'', Del ''tokenizer'',
               Lib (Func ''torch.cuda.empty_cache'' [] []) (Inr v)] \<and>
            trace (snd (run_all toy (fresh 0))) = trace b @ after \<and> replays toy after (ext b) (ext (snd (run_all toy (fresh 0)))) \<and>
            map op_of after =
              [Call ''AutoTokenizer.from_pretrained'', Call ''AutoModelForCausalLM.from_pretrained'',
               Call ''pipeline'',
               Called, Called, Called, Called, Called,
               Call ''time.time'', Called, Call ''time.time'', Called,
               Printed, Call ''torch.cuda.memory_allocated'', Printed, Printed,
               Call ''get_ipython().system'']"
proof -
  have "run_all toy (fresh 0) = (Inr (), snd (run_all toy (fresh 0)))"
    using toy_run_returns by (simp add: prod_eq_iff)
  from gpu_memory_freed_once [OF this] show ?thesis
    by (simp only: sum.case)
qed


end
